theory Spec2Isabelle
  imports Main
begin

section \<open>JavaScript values used by the OAuth2 server\<close>

text \<open>
  Strings are byte strings (the UTF-8 encoding of the JavaScript string); \<open>===\<close> on
  strings is equality of these lists. Timestamps (\<open>Date\<close>, \<open>TIMESTAMPTZ\<close>) are
  milliseconds since the epoch, as \<open>Date.getTime()\<close> returns them. A value of type
  \<open>string | null | undefined\<close> is a \<open>string option\<close>.
\<close>

type_synonym time = int

text \<open>JavaScript truthiness of a \<open>string | null | undefined\<close>: the empty string is falsy.\<close>

definition truthy :: "string option \<Rightarrow> bool" where
  "truthy v = (case v of None \<Rightarrow> False | Some s \<Rightarrow> s \<noteq> [])"

text \<open>\<open>Array.prototype.includes\<close> on an array of strings.\<close>

definition array_includes :: "string list \<Rightarrow> string \<Rightarrow> bool" where
  "array_includes xs x = (x \<in> set xs)"

text \<open>\<open>s.split(' ')\<close>: the pieces between single spaces, empty pieces kept.\<close>

fun split_acc :: "string \<Rightarrow> string \<Rightarrow> string list" where
  "split_acc cur [] = [rev cur]"
| "split_acc cur (c # cs) =
     (if c = CHR '' '' then rev cur # split_acc [] cs else split_acc (c # cur) cs)"

definition split_space :: "string \<Rightarrow> string list" where
  "split_space s = split_acc [] s"

text \<open>\<open>.filter(Boolean)\<close> on an array of strings drops the empty strings.\<close>

definition filter_Boolean :: "string list \<Rightarrow> string list" where
  "filter_Boolean xs = filter (\<lambda>s. s \<noteq> []) xs"

text \<open>\<open>xs.join(sep)\<close>.\<close>

fun join :: "string \<Rightarrow> string list \<Rightarrow> string" where
  "join sep [] = []"
| "join sep [x] = x"
| "join sep (x # y # ys) = x @ sep @ join sep (y # ys)"

section \<open>SHA-256 digests (\<open>Bun.CryptoHasher('sha256')\<close>)\<close>

text \<open>
  The \<open>hash...\<close> helpers of the source call the runtime's SHA-256 and read the digest
  in hexadecimal; PKCE reads it in base64url. The runtime is not part of the package, so
  both readings are parameters of every operation that hashes: \<open>hex\<close> stands for
  \<open>s \<mapsto> new Bun.CryptoHasher('sha256').update(s).digest('hex')\<close> and \<open>b64\<close> for the
  same with \<open>digest('base64url')\<close>. Nothing is assumed about them.
\<close>

type_synonym digest = "string \<Rightarrow> string"

section \<open>Protocol errors (\<open>errors.ts\<close>)\<close>

record OAuth2Error =
  message :: string
  errorCode :: string
  statusCode :: nat

definition UnsupportedGrantError :: OAuth2Error where
  "UnsupportedGrantError =
     \<lparr>message = ''The authorization grant type is not supported.'',
      errorCode = ''unsupported_grant_type'', statusCode = 400\<rparr>"

definition InvalidClientError :: "string \<Rightarrow> OAuth2Error" where
  "InvalidClientError msg = \<lparr>message = msg, errorCode = ''invalid_client'', statusCode = 401\<rparr>"

definition InvalidClientError_default :: OAuth2Error where
  "InvalidClientError_default = InvalidClientError ''Client authentication failed.''"

definition InvalidGrantError :: "string \<Rightarrow> OAuth2Error" where
  "InvalidGrantError msg = \<lparr>message = msg, errorCode = ''invalid_grant'', statusCode = 400\<rparr>"

definition InvalidGrantError_default :: OAuth2Error where
  "InvalidGrantError_default =
     InvalidGrantError ''The provided authorization grant is invalid, expired, or revoked.''"

definition InvalidRequestError :: "string \<Rightarrow> OAuth2Error" where
  "InvalidRequestError msg = \<lparr>message = msg, errorCode = ''invalid_request'', statusCode = 400\<rparr>"

definition InvalidScopeError :: "string \<Rightarrow> OAuth2Error" where
  "InvalidScopeError msg = \<lparr>message = msg, errorCode = ''invalid_scope'', statusCode = 400\<rparr>"

section \<open>Scope registry (\<open>scopes.ts\<close>)\<close>

text \<open>
  \<open>ScopeRegistry._scopes\<close> is a \<open>Map\<close> from scope name to description; it is a
  parameter of every operation that reads it.
\<close>

type_synonym registry = "(string \<times> string) list"

definition has :: "registry \<Rightarrow> string \<Rightarrow> bool" where
  "has reg name = (map_of reg name \<noteq> None)"


text \<open>The two \<open>for\<close> loops of \<open>validate\<close>: each throws at the first offending name.\<close>

fun first_unregistered :: "registry \<Rightarrow> string list \<Rightarrow> OAuth2Error option" where
  \<open>first_unregistered reg [] = None\<close>
| \<open>first_unregistered reg (scope # rest) =
     (if \<not> has reg scope then Some (InvalidScopeError (''Unknown scope: "'' @ scope @ ''".''))
      else first_unregistered reg rest)\<close>

fun first_disallowed :: "string list \<Rightarrow> string list \<Rightarrow> OAuth2Error option" where
  \<open>first_disallowed clientAllowed [] = None\<close>
| \<open>first_disallowed clientAllowed (scope # rest) =
     (if \<not> array_includes clientAllowed scope
      then Some (InvalidScopeError (''Scope "'' @ scope @ ''" is not allowed for this client.''))
      else first_disallowed clientAllowed rest)\<close>

definition validate ::
  "registry \<Rightarrow> string list \<Rightarrow> string list option \<Rightarrow> string list \<Rightarrow> OAuth2Error + string list"
where
  "validate reg requested clientAllowed defaultScopes =
     (let scopes = (if length requested > 0 then requested else defaultScopes) in
      if length scopes = 0 then Inr []
      else case first_unregistered reg scopes of
             Some e \<Rightarrow> Inl e
           | None \<Rightarrow>
               (case clientAllowed of
                  None \<Rightarrow> Inr scopes
                | Some allowed \<Rightarrow>
                    (case first_disallowed allowed scopes of
                       Some e \<Rightarrow> Inl e
                     | None \<Rightarrow> Inr scopes)))"

section \<open>Persisted state (\<open>oauth2_manager.ts\<close>, \<open>ensureTables\<close>)\<close>

text \<open>
  One record for each table, one field for each column. A table is the list of its rows in
  insertion order; \<open>SELECT ... WHERE c LIMIT 1\<close> is the first row satisfying \<open>c\<close>, an
  \<open>UPDATE ... WHERE c\<close> rewrites every row satisfying \<open>c\<close>, and an \<open>INSERT\<close> that breaks a
  \<open>PRIMARY KEY\<close> or \<open>UNIQUE\<close> constraint throws and leaves the table as it was.
\<close>

record client_row =
  cl_id :: string
  cl_name :: string
  cl_secret :: "string option"
  cl_redirect_uris :: "string list"
  cl_scopes :: "string list option"
  cl_grant_types :: "string list"
  cl_confidential :: bool
  cl_first_party :: bool
  cl_revoked :: bool
  cl_created_at :: time
  cl_updated_at :: time

record token_row =
  tk_id :: string
  tk_user_id :: "string option"
  tk_client_id :: string
  tk_name :: "string option"
  tk_scopes :: "string list"
  tk_token :: string
  tk_refresh_token :: "string option"
  tk_expires_at :: time
  tk_refresh_expires_at :: "time option"
  tk_last_used_at :: "time option"
  tk_revoked_at :: "time option"
  tk_created_at :: time

record auth_code_row =
  ac_id :: string
  ac_client_id :: string
  ac_user_id :: string
  ac_code :: string
  ac_redirect_uri :: string
  ac_scopes :: "string list"
  ac_code_challenge :: "string option"
  ac_code_challenge_method :: "string option"
  ac_expires_at :: time
  ac_used_at :: "time option"
  ac_created_at :: time

record database =
  clients :: "client_row list"
  tokens :: "token_row list"
  auth_codes :: "auth_code_row list"

text \<open>
  What a handler can throw instead of answering: \<open>DbError\<close> when an \<open>INSERT\<close> breaks a
  key, uniqueness or foreign-key constraint, \<open>DataError\<close> when the database cannot read a
  bound string as a value of the column's type, \<open>TypeError\<close> from \<open>new URL\<close>, and the
  error of \<open>getUserId\<close>.
\<close>

datatype exn = DbError | DataError | TypeError | UserIdError

section \<open>Column types (\<open>UUID\<close>, \<open>VARCHAR(n)\<close>)\<close>

text \<open>
  The \<open>id\<close> and \<open>client_id\<close> columns are of type \<open>UUID\<close>. PostgreSQL is not part of
  the package; \<open>uuid_in\<close> is its reading of a string bound to such a column: sixteen
  bytes of two hexadecimal digits each, in either case, a hyphen allowed after every second
  byte but the last, the whole optionally in braces, and nothing else before or after. A
  string that does not read this way makes the statement throw. A uuid is written in one
  form only, lower case in groups of 8-4-4-4-12 digits; a row holds its ids in that form,
  which is what \<open>String(row.id)\<close> returns, and \<open>uuid_in\<close> returns the uuid in that form.

  \<open>OAuthClient.find\<close>, \<open>AuthCode.create\<close> and \<open>OAuthToken.personalTokensFor\<close> are given
  strings of a request, of the session or of the configuration, and read them with
  \<open>uuid_in\<close>. The other operations that take an id are modelled for an id in the written
  form, which they compare with the column as it is: the handlers below pass them the id
  of a record the database returned, or read the string of the request first.
\<close>

definition hex_digit :: "char \<Rightarrow> bool" where
  "hex_digit c \<longleftrightarrow> c \<in> set ''0123456789abcdefABCDEF''"

definition lower_hex :: "char \<Rightarrow> char" where
  "lower_hex c =
     (if c = CHR ''A'' then CHR ''a'' else if c = CHR ''B'' then CHR ''b''
      else if c = CHR ''C'' then CHR ''c'' else if c = CHR ''D'' then CHR ''d''
      else if c = CHR ''E'' then CHR ''e'' else if c = CHR ''F'' then CHR ''f'' else c)"

text \<open>
  One byte for each entry of the first argument, which says whether a hyphen may follow
  that byte; the result is the digits read, in lower case, and the rest of the string.
\<close>

fun read_bytes :: "bool list \<Rightarrow> string \<Rightarrow> (string \<times> string) option" where
  "read_bytes [] src = Some ([], src)"
| "read_bytes (hyphen # others) (a # b # src) =
     (if hex_digit a \<and> hex_digit b
      then (case read_bytes others (if hyphen \<and> take 1 src = ''-'' then drop 1 src else src) of
              None \<Rightarrow> None
            | Some (digits, rest) \<Rightarrow> Some (lower_hex a # lower_hex b # digits, rest))
      else None)"
| "read_bytes (hyphen # others) src = None"

definition hyphen_after :: "bool list" where
  "hyphen_after = [False, True, False, True, False, True, False, True,
                   False, True, False, True, False, True, False, False]"

definition uuid_text :: "string \<Rightarrow> string" where
  "uuid_text ds = take 8 ds @ ''-'' @ take 4 (drop 8 ds) @ ''-'' @ take 4 (drop 12 ds) @ ''-'' @
                  take 4 (drop 16 ds) @ ''-'' @ drop 20 ds"

definition uuid_in :: "string \<Rightarrow> string option" where
  "uuid_in s =
     (let braces = (take 1 s = ''{'');
          src = (if braces then drop 1 s else s)
      in case read_bytes hyphen_after src of
           None \<Rightarrow> None
         | Some (digits, rest) \<Rightarrow>
             if rest = (if braces then ''}'' else []) then Some (uuid_text digits) else None)"





text \<open>The settings of \<open>OAuth2Config\<close> that the modelled code reads (lifetimes in minutes).\<close>

record OAuth2Config =
  cfg_accessTokenLifetime :: int
  cfg_refreshTokenLifetime :: int
  cfg_authCodeLifetime :: int
  cfg_personalAccessTokenLifetime :: int
  cfg_defaultScopes :: "string list"
  cfg_personalAccessClient :: "string option"

section \<open>Clients (\<open>client.ts\<close>)\<close>

record OAuthClientData =
  c_id :: string
  c_name :: string
  c_redirectUris :: "string list"
  c_scopes :: "string list option"
  c_grantTypes :: "string list"
  c_confidential :: bool
  c_firstParty :: bool
  c_revoked :: bool
  c_createdAt :: time
  c_updatedAt :: time

definition hydrate_client :: "client_row \<Rightarrow> OAuthClientData" where
  "hydrate_client row =
     \<lparr>c_id = cl_id row, c_name = cl_name row, c_redirectUris = cl_redirect_uris row,
      c_scopes = cl_scopes row, c_grantTypes = cl_grant_types row,
      c_confidential = cl_confidential row, c_firstParty = cl_first_party row,
      c_revoked = cl_revoked row, c_createdAt = cl_created_at row,
      c_updatedAt = cl_updated_at row\<rparr>"

text \<open>
  \<open>OAuthClient.find\<close>: the \<open>SELECT\<close> throws when \<open>id\<close> does not read as a uuid, and
  otherwise compares the uuid read with the \<open>id\<close> column.
\<close>

definition OAuthClient_find :: "database \<Rightarrow> string \<Rightarrow> exn + OAuthClientData option" where
  "OAuthClient_find db ident =
     (case uuid_in ident of
        None \<Rightarrow> Inl DataError
      | Some u \<Rightarrow>
          (case find (\<lambda>r. cl_id r = u) (clients db) of
             None \<Rightarrow> Inr None
           | Some row \<Rightarrow> Inr (Some (hydrate_client row))))"

text \<open>
  \<open>verifySecret\<close> is given a client that \<open>find\<close> returned; its \<open>id\<close> is the id of a row as
  the database writes it, and is compared as it is.
\<close>

definition timingSafeEqual :: "string \<Rightarrow> string \<Rightarrow> bool" where
  "timingSafeEqual a b = (if length a \<noteq> length b then False else a = b)"

definition verifySecret :: "digest \<Rightarrow> database \<Rightarrow> OAuthClientData \<Rightarrow> string \<Rightarrow> bool" where
  "verifySecret hex db client plainSecret =
     (case find (\<lambda>r. cl_id r = c_id client) (clients db) of
        None \<Rightarrow> False
      | Some row \<Rightarrow>
          (if \<not> truthy (cl_secret row) then False
           else timingSafeEqual (the (cl_secret row)) (hex plainSecret)))"

definition OAuthClient_destroy :: "string \<Rightarrow> database \<Rightarrow> database" where
  "OAuthClient_destroy ident db =
     db\<lparr>auth_codes := filter (\<lambda>r. ac_client_id r \<noteq> ident) (auth_codes db),
        tokens := filter (\<lambda>r. tk_client_id r \<noteq> ident) (tokens db),
        clients := filter (\<lambda>r. cl_id r \<noteq> ident) (clients db)\<rparr>"

section \<open>Tokens (\<open>token.ts\<close>)\<close>

record OAuthTokenData =
  t_id :: string
  t_userId :: "string option"
  t_clientId :: string
  t_name :: "string option"
  t_scopes :: "string list"
  t_expiresAt :: time
  t_refreshExpiresAt :: "time option"
  t_lastUsedAt :: "time option"
  t_revokedAt :: "time option"
  t_createdAt :: time

definition hydrate_token :: "token_row \<Rightarrow> OAuthTokenData" where
  "hydrate_token row =
     \<lparr>t_id = tk_id row, t_userId = tk_user_id row, t_clientId = tk_client_id row,
      t_name = tk_name row, t_scopes = tk_scopes row, t_expiresAt = tk_expires_at row,
      t_refreshExpiresAt = tk_refresh_expires_at row, t_lastUsedAt = tk_last_used_at row,
      t_revokedAt = tk_revoked_at row, t_createdAt = tk_created_at row\<rparr>"

text \<open>The parameters of \<open>OAuthToken.create\<close>; an optional one left out is \<open>None\<close>.\<close>

record create_token_params =
  p_userId :: "string option"
  p_clientId :: string
  p_scopes :: "string list"
  p_name :: "string option"
  p_includeRefreshToken :: "bool option"
  p_accessTokenLifetime :: "int option"
  p_refreshTokenLifetime :: "int option"

record created_token =
  r_accessToken :: string
  r_refreshToken :: "string option"
  r_tokenData :: OAuthTokenData

text \<open>
  \<open>OAuthToken.create\<close>. The two \<open>randomHex(40)\<close> results and the \<open>gen_random_uuid()\<close> of the
  inserted row are inputs. The \<open>INSERT\<close> throws when the id, the token hash or a non-null
  refresh hash is already in the table. The handler below passes it the user and the client
  of a token row that is in the table.
\<close>

definition OAuthToken_create ::
  "digest \<Rightarrow> OAuth2Config \<Rightarrow> time \<Rightarrow> string \<Rightarrow> string \<Rightarrow> string \<Rightarrow> create_token_params \<Rightarrow>
   database \<Rightarrow> exn + (created_token \<times> database)"
where
  "OAuthToken_create hex cfg now uuid randomHex1 randomHex2 params db =
     (let plainAccess = randomHex1;
          hashedAccess = hex plainAccess;
          accessLifetime = (case p_accessTokenLifetime params of
                              Some l \<Rightarrow> l | None \<Rightarrow> cfg_accessTokenLifetime cfg);
          expiresAt = now + accessLifetime * 60000;
          withRefresh = (p_includeRefreshToken params \<noteq> Some False \<and> p_userId params \<noteq> None);
          refreshLifetime = (case p_refreshTokenLifetime params of
                               Some l \<Rightarrow> l | None \<Rightarrow> cfg_refreshTokenLifetime cfg);
          plainRefresh = (if withRefresh then Some randomHex2 else None);
          hashedRefresh = (if withRefresh then Some (hex randomHex2) else None);
          refreshExpiresAt = (if withRefresh then Some (now + refreshLifetime * 60000) else None);
          row = \<lparr>tk_id = uuid, tk_user_id = p_userId params, tk_client_id = p_clientId params,
                 tk_name = p_name params, tk_scopes = p_scopes params, tk_token = hashedAccess,
                 tk_refresh_token = hashedRefresh, tk_expires_at = expiresAt,
                 tk_refresh_expires_at = refreshExpiresAt, tk_last_used_at = None,
                 tk_revoked_at = None, tk_created_at = now\<rparr>
      in if (\<exists>r \<in> set (tokens db). tk_id r = uuid \<or> tk_token r = hashedAccess \<or>
               (hashedRefresh \<noteq> None \<and> tk_refresh_token r = hashedRefresh))
         then Inl DbError
         else Inr (\<lparr>r_accessToken = plainAccess, r_refreshToken = plainRefresh,
                     r_tokenData = hydrate_token row\<rparr>,
                   db\<lparr>tokens := tokens db @ [row]\<rparr>))"

text \<open>
  \<open>OAuthToken.validate\<close>. The \<open>last_used_at\<close> update is issued without being awaited; the
  returned database is the table once that update has been applied.
\<close>

definition OAuthToken_validate ::
  "digest \<Rightarrow> time \<Rightarrow> string \<Rightarrow> database \<Rightarrow> OAuthTokenData option \<times> database"
where
  "OAuthToken_validate hex now plainToken db =
     (case find (\<lambda>r. tk_token r = hex plainToken) (tokens db) of
        None \<Rightarrow> (None, db)
      | Some row \<Rightarrow>
          (let record = hydrate_token row in
           if t_revokedAt record \<noteq> None then (None, db)
           else if t_expiresAt record < now then (None, db)
           else (Some record,
                 db\<lparr>tokens := map (\<lambda>r. if tk_id r = t_id record
                                          then r\<lparr>tk_last_used_at := Some now\<rparr> else r)
                                   (tokens db)\<rparr>)))"

definition OAuthToken_validateRefreshToken ::
  "digest \<Rightarrow> time \<Rightarrow> string \<Rightarrow> database \<Rightarrow> OAuthTokenData option"
where
  "OAuthToken_validateRefreshToken hex now plainRefresh db =
     (case find (\<lambda>r. tk_refresh_token r = Some (hex plainRefresh)) (tokens db) of
        None \<Rightarrow> None
      | Some row \<Rightarrow>
          (let record = hydrate_token row in
           if t_revokedAt record \<noteq> None then None
           else if (case t_refreshExpiresAt record of None \<Rightarrow> False | Some e \<Rightarrow> e < now)
                then None
           else Some record))"

definition OAuthToken_revoke :: "time \<Rightarrow> string \<Rightarrow> database \<Rightarrow> database" where
  "OAuthToken_revoke now ident db =
     db\<lparr>tokens := map (\<lambda>r. if tk_id r = ident then r\<lparr>tk_revoked_at := Some now\<rparr> else r)
                       (tokens db)\<rparr>"

definition OAuthToken_revokeAllFor :: "time \<Rightarrow> string \<Rightarrow> database \<Rightarrow> database" where
  "OAuthToken_revokeAllFor now userId db =
     db\<lparr>tokens := map (\<lambda>r. if tk_user_id r = Some userId \<and> tk_revoked_at r = None
                            then r\<lparr>tk_revoked_at := Some now\<rparr> else r)
                       (tokens db)\<rparr>"

definition OAuthToken_revokeAllForClient ::
  "time \<Rightarrow> string \<Rightarrow> string \<Rightarrow> database \<Rightarrow> database"
where
  "OAuthToken_revokeAllForClient now userId clientId db =
     db\<lparr>tokens := map (\<lambda>r. if tk_user_id r = Some userId \<and> tk_client_id r = clientId \<and>
                               tk_revoked_at r = None
                            then r\<lparr>tk_revoked_at := Some now\<rparr> else r)
                       (tokens db)\<rparr>"

text \<open>
  \<open>OAuthToken.allForUser\<close> and \<open>OAuthToken.personalTokensFor\<close>, the two listings of a
  user's active tokens: the rows of the \<open>WHERE\<close> clause, latest \<open>created_at\<close> first (rows
  created at the same instant are left in table order; the database promises no order for
  them). \<open>personalTokensFor\<close> binds the configured client id to the \<open>client_id\<close> column.
\<close>

definition OAuthToken_allForUser :: "time \<Rightarrow> string \<Rightarrow> database \<Rightarrow> OAuthTokenData list" where
  "OAuthToken_allForUser now userId db =
     map hydrate_token
       (sort_key (\<lambda>r. - tk_created_at r)
          (filter (\<lambda>r. tk_user_id r = Some userId \<and> tk_revoked_at r = None \<and>
                        tk_expires_at r > now)
             (tokens db)))"

definition OAuthToken_personalTokensFor ::
  "OAuth2Config \<Rightarrow> time \<Rightarrow> string \<Rightarrow> database \<Rightarrow> exn + OAuthTokenData list"
where
  "OAuthToken_personalTokensFor cfg now userId db =
     (let patClientId = cfg_personalAccessClient cfg
      in if \<not> truthy patClientId then Inr []
         else case uuid_in (the patClientId) of
           None \<Rightarrow> Inl DataError
         | Some client_id \<Rightarrow>
             Inr (map hydrate_token
                    (sort_key (\<lambda>r. - tk_created_at r)
                       (filter (\<lambda>r. tk_user_id r = Some userId \<and> tk_client_id r = client_id \<and>
                                     tk_revoked_at r = None \<and> tk_expires_at r > now)
                          (tokens db)))))"

text \<open>\<open>OAuthToken.prune\<close>: the rows the \<open>DELETE\<close> keeps, and how many it removed.\<close>

definition prunable :: "time \<Rightarrow> int \<Rightarrow> token_row \<Rightarrow> bool" where
  "prunable now revokedOlderThanDays r =
     (let cutoff = now - revokedOlderThanDays * 86400000 in
      (tk_expires_at r < now \<and> tk_refresh_expires_at r = None) \<or>
      (case tk_refresh_expires_at r of None \<Rightarrow> False | Some e \<Rightarrow> e < now) \<or>
      (case tk_revoked_at r of None \<Rightarrow> False | Some t \<Rightarrow> t < cutoff))"

definition OAuthToken_prune :: "time \<Rightarrow> int \<Rightarrow> database \<Rightarrow> nat \<times> database" where
  "OAuthToken_prune now revokedOlderThanDays db =
     (length (filter (prunable now revokedOlderThanDays) (tokens db)),
      db\<lparr>tokens := filter (\<lambda>r. \<not> prunable now revokedOlderThanDays r) (tokens db)\<rparr>)"

section \<open>Authorization codes (\<open>auth_code.ts\<close>)\<close>






definition AuthCode_prune :: "time \<Rightarrow> database \<Rightarrow> nat \<times> database" where
  "AuthCode_prune now db =
     (length (filter (\<lambda>r. ac_expires_at r < now \<or> ac_used_at r \<noteq> None) (auth_codes db)),
      db\<lparr>auth_codes := filter (\<lambda>r. \<not> (ac_expires_at r < now \<or> ac_used_at r \<noteq> None))
                                (auth_codes db)\<rparr>)"

section \<open>Requests, responses and what a request reads from outside\<close>

text \<open>
  A parsed body or query string maps a field name to its value, when the field is there.
  \<open>new URL(s)\<close> throws a \<open>TypeError\<close> on a string that is no URL; a \<open>url\<close> records the
  string it was built from and the \<open>searchParams.set\<close> calls made on it.
\<close>

type_synonym fields = "string \<Rightarrow> string option"

record url =
  href :: string
  searchParams :: "(string \<times> string) list"


datatype json =
    ErrorJson string string
  | EmptyJson
  | MessageJson string
  | TokenJson string string int string "string option"
  | ConsentJson string string "(string \<times> string) list" "string option"

datatype response =
    Json nat json
  | Redirect nat url
  | Rendered OAuthClientData "(string \<times> string) list"

datatype jsval = JString string | JNumber int | JObject "(string \<times> jsval) list" | JNull

text \<open>
  Everything a handler reads that is neither the request nor the database: the two digest
  readings, the clock, the configuration, the scope registry, the random values drawn
  while the request is served, \<open>new URL\<close>'s verdict on a string, JavaScript's \<open>String(v)\<close>,
  and whether the application supplied \<open>renderAuthorization\<close>.
\<close>

record runtime =
  rt_hex :: digest
  rt_b64 :: digest
  rt_now :: time
  rt_config :: OAuth2Config
  rt_registry :: registry
  rt_uuid :: string
  rt_randomHex1 :: string
  rt_randomHex2 :: string
  rt_valid_URL :: "string \<Rightarrow> bool"
  rt_String :: "jsval \<Rightarrow> string"
  rt_renderAuthorization :: bool

definition toJSON :: "OAuth2Error \<Rightarrow> json" where
  "toJSON e = ErrorJson (errorCode e) (message e)"

section \<open>The refresh-token grant of the token endpoint (\<open>handlers/token.ts\<close>)\<close>

definition errorResponse :: "OAuth2Error \<Rightarrow> response" where
  "errorResponse e = Json (statusCode e) (toJSON e)"

definition tokenResponse ::
  "time \<Rightarrow> string \<Rightarrow> string option \<Rightarrow> string list \<Rightarrow> time \<Rightarrow> response"
where
  "tokenResponse now access refresh scopes expiresAt =
     Json 200 (TokenJson access ''Bearer'' ((expiresAt - now) div 1000) (join '' '' scopes)
                 (if truthy refresh then refresh else None))"

text \<open>
  Each handler returns its response, or what it threw, with the database it leaves. Event
  emission (\<open>Emitter.emit(...).catch(() => {})\<close>) touches neither and is left out. The
  clock is read once for a request: \<open>Date.now()\<close> and the database's \<open>NOW()\<close> are the
  same instant \<open>rt_now\<close>.
\<close>

definition handleRefreshToken ::
  "runtime \<Rightarrow> fields \<Rightarrow> database \<Rightarrow> (exn + response) \<times> database"
where
  "handleRefreshToken rt body db =
     (let refresh_token = body ''refresh_token''; client_id = body ''client_id'';
          client_secret = body ''client_secret''; scope = body ''scope''
      in if \<not> truthy refresh_token \<or> \<not> truthy client_id
         then (Inr (errorResponse (InvalidRequestError
                 ''The refresh_token and client_id parameters are required.'')), db)
         else case OAuthClient_find db (the client_id) of
           Inl e \<Rightarrow> (Inl e, db)
         | Inr None \<Rightarrow> (Inr (errorResponse InvalidClientError_default), db)
         | Inr (Some client) \<Rightarrow>
             if c_revoked client then (Inr (errorResponse InvalidClientError_default), db)
             else if c_confidential client \<and> \<not> truthy client_secret
             then (Inr (errorResponse (InvalidClientError
                     ''Client secret is required for confidential clients.'')), db)
             else if c_confidential client \<and>
                     \<not> verifySecret (rt_hex rt) db client (the client_secret)
             then (Inr (errorResponse InvalidClientError_default), db)
             else case OAuthToken_validateRefreshToken (rt_hex rt) (rt_now rt)
                         (the refresh_token) db of
               None \<Rightarrow> (Inr (errorResponse InvalidGrantError_default), db)
             | Some oldToken \<Rightarrow>
                 if t_clientId oldToken \<noteq> the client_id
                 then (Inr (errorResponse InvalidGrantError_default), db)
                 else let requested = filter_Boolean (split_space (the scope));
                          widened = filter (\<lambda>s. \<not> array_includes (t_scopes oldToken) s) requested
                      in if truthy scope \<and> length widened > 0
                         then (Inr (errorResponse (InvalidRequestError
                                 (''Cannot widen scopes on refresh. Unknown scopes: '' @
                                  join '', '' widened))), db)
                         else let scopes = (if truthy scope then requested
                                            else t_scopes oldToken);
                                  db1 = OAuthToken_revoke (rt_now rt) (t_id oldToken) db
                              in case OAuthToken_create (rt_hex rt) (rt_config rt) (rt_now rt)
                                        (rt_uuid rt) (rt_randomHex1 rt) (rt_randomHex2 rt)
                                        \<lparr>p_userId = t_userId oldToken,
                                         p_clientId = the client_id, p_scopes = scopes,
                                         p_name = None, p_includeRefreshToken = Some True,
                                         p_accessTokenLifetime = None,
                                         p_refreshTokenLifetime = None\<rparr> db1 of
                                   Inl e \<Rightarrow> (Inl e, db1)
                                 | Inr (created, db2) \<Rightarrow>
                                     (Inr (tokenResponse (rt_now rt) (r_accessToken created)
                                             (r_refreshToken created)
                                             (t_scopes (r_tokenData created))
                                             (t_expiresAt (r_tokenData created))),
                                      db2))"

section \<open>Revocation (\<open>handlers/revoke.ts\<close>, \<open>handlers/personal_tokens.ts\<close>)\<close>


text \<open>
  \<open>revokePersonalTokenHandler\<close> runs behind \<open>auth()\<close>, which puts the session user into the
  context; the handler reads \<open>ctx.params.id\<close> and nothing else. The id is a string of the
  request, which the \<open>UPDATE\<close> of \<open>OAuthToken.revoke\<close> reads as a uuid.
\<close>

definition revokePersonalTokenHandler ::
  "runtime \<Rightarrow> jsval \<Rightarrow> string \<Rightarrow> database \<Rightarrow> (exn + response) \<times> database"
where
  "revokePersonalTokenHandler rt user tokenId db =
     (case uuid_in tokenId of
        None \<Rightarrow> (Inl DataError, db)
      | Some ident \<Rightarrow>
          (Inr (Json 200 (MessageJson ''Token revoked.'')),
           OAuthToken_revoke (rt_now rt) ident db))"

section \<open>The authorization endpoint (\<open>utils.ts\<close>, \<open>handlers/authorize.ts\<close>)\<close>








section \<open>Fixtures for the closed examples\<close>

text \<open>
  A closed example has to fix the digest. The theorems hold for every digest function, so
  the examples use a stand-in that tags its input; it is injective, as SHA-256 is on the
  few strings of an example.
\<close>

definition example_digest :: digest where
  "example_digest s = ''sha256:'' @ s"

text \<open>The ids of the examples: two clients, two tokens and an authorization code.\<close>

abbreviation client_1 :: string where
  "client_1 \<equiv> ''c0000000-0000-4000-8000-000000000001''"

abbreviation client_2 :: string where
  "client_2 \<equiv> ''c0000000-0000-4000-8000-000000000002''"

abbreviation token_1 :: string where
  "token_1 \<equiv> ''70000000-0000-4000-8000-000000000001''"

abbreviation token_2 :: string where
  "token_2 \<equiv> ''70000000-0000-4000-8000-000000000002''"


definition example_token_row :: token_row where
  "example_token_row =
     \<lparr>tk_id = token_1, tk_user_id = Some ''u2'', tk_client_id = client_1, tk_name = None,
      tk_scopes = [''read''], tk_token = example_digest ''access-1'',
      tk_refresh_token = Some (example_digest ''refresh-1''), tk_expires_at = 1000,
      tk_refresh_expires_at = None, tk_last_used_at = None, tk_revoked_at = None,
      tk_created_at = 0\<rparr>"

definition example_config :: OAuth2Config where
  "example_config =
     \<lparr>cfg_accessTokenLifetime = 60, cfg_refreshTokenLifetime = 43200,
      cfg_authCodeLifetime = 10, cfg_personalAccessTokenLifetime = 525600,
      cfg_defaultScopes = [], cfg_personalAccessClient = Some client_2\<rparr>"

definition example_runtime :: runtime where
  "example_runtime =
     \<lparr>rt_hex = example_digest, rt_b64 = example_digest, rt_now = 5000,
      rt_config = example_config, rt_registry = [(''read'', ''Read''), (''write'', ''Write'')],
      rt_uuid = token_2, rt_randomHex1 = ''access-2'', rt_randomHex2 = ''refresh-2'',
      rt_valid_URL = (\<lambda>s. s \<noteq> []),
      rt_String = (\<lambda>v. case v of JString s \<Rightarrow> s | _ \<Rightarrow> ''?''),
      rt_renderAuthorization = False\<rparr>"

definition example_refresh_row :: token_row where
  "example_refresh_row =
     \<lparr>tk_id = token_1, tk_user_id = Some ''u2'', tk_client_id = client_1, tk_name = None,
      tk_scopes = [''read''], tk_token = example_digest ''access-1'',
      tk_refresh_token = Some (example_digest ''refresh-1''), tk_expires_at = 3600000,
      tk_refresh_expires_at = Some 2592000000, tk_last_used_at = None, tk_revoked_at = None,
      tk_created_at = 0\<rparr>"

definition example_client_row :: client_row where
  "example_client_row =
     \<lparr>cl_id = client_1, cl_name = ''Test'', cl_secret = Some (example_digest ''s3cret''),
      cl_redirect_uris = [''https://example.com/callback''], cl_scopes = None,
      cl_grant_types = [''authorization_code'', ''refresh_token''], cl_confidential = True,
      cl_first_party = False, cl_revoked = False, cl_created_at = 0, cl_updated_at = 0\<rparr>"

definition example_db :: database where
  "example_db = \<lparr>clients = [example_client_row], tokens = [example_refresh_row], auth_codes = []\<rparr>"


section \<open>The operations that write the token table\<close>

text \<open>
  Every statement of the package that inserts, updates or deletes token rows, as one
  datatype, so that "any operation" and "any sequence of operations" can be stated.
\<close>

datatype token_op =
    Op_create digest OAuth2Config time string string string create_token_params
  | Op_validate digest time string
  | Op_revoke time string
  | Op_revokeAllFor time string
  | Op_revokeAllForClient time string string
  | Op_prune time int
  | Op_destroy string

fun run_op :: "token_op \<Rightarrow> database \<Rightarrow> database" where
  "run_op (Op_create hex cfg now uuid r1 r2 params) db =
     (case OAuthToken_create hex cfg now uuid r1 r2 params db of
        Inl e \<Rightarrow> db | Inr (created, db1) \<Rightarrow> db1)"
| "run_op (Op_validate hex now plain) db = snd (OAuthToken_validate hex now plain db)"
| "run_op (Op_revoke now ident) db = OAuthToken_revoke now ident db"
| "run_op (Op_revokeAllFor now userId) db = OAuthToken_revokeAllFor now userId db"
| "run_op (Op_revokeAllForClient now userId clientId) db =
     OAuthToken_revokeAllForClient now userId clientId db"
| "run_op (Op_prune now days) db = snd (OAuthToken_prune now days db)"
| "run_op (Op_destroy ident) db = OAuthClient_destroy ident db"

definition run_ops :: "token_op list \<Rightarrow> database \<Rightarrow> database" where
  "run_ops ops db = foldl (\<lambda>d op. run_op op d) db ops"


section \<open>Scope validation\<close>

lemma first_unregistered_None:
  "first_unregistered reg xs = None \<longleftrightarrow> (\<forall>s \<in> set xs. has reg s)"
  by (induction xs) auto

lemma first_unregistered_code:
  "first_unregistered reg xs = Some e \<Longrightarrow> errorCode e = ''invalid_scope'' \<and> statusCode e = 400"
  by (induction xs) (auto simp: InvalidScopeError_def split: if_splits)

lemma first_disallowed_None:
  "first_disallowed allowed xs = None \<longleftrightarrow> (\<forall>s \<in> set xs. s \<in> set allowed)"
  by (induction xs) (auto simp: array_includes_def)

lemma first_disallowed_code:
  "first_disallowed allowed xs = Some e \<Longrightarrow> errorCode e = ''invalid_scope'' \<and> statusCode e = 400"
  by (induction xs) (auto simp: InvalidScopeError_def split: if_splits)

text \<open>
  C8. \<open>ScopeRegistry.validate\<close> works on \<open>requested\<close>, or on \<open>defaultScopes\<close> when
  \<open>requested\<close> is empty. It throws exactly when some name of that list is not registered
  or, with a non-null \<open>clientAllowed\<close>, is not in \<open>clientAllowed\<close>; what it throws is an
  \<open>InvalidScopeError\<close> (code \<open>invalid_scope\<close>). Otherwise it returns that list itself,
  same names in the same order.
\<close>

theorem validate_spec:
  "let scopes = (if requested = [] then defaultScopes else requested);
       res = validate reg requested clientAllowed defaultScopes
   in (isl res \<longleftrightarrow>
         (\<exists>s \<in> set scopes. \<not> has reg s \<or> (\<exists>a. clientAllowed = Some a \<and> s \<notin> set a))) \<and>
      (\<forall>e. res = Inl e \<longrightarrow> errorCode e = ''invalid_scope'' \<and> statusCode e = 400) \<and>
      (\<not> isl res \<longrightarrow> res = Inr scopes)"
proof -
  define scopes where "scopes = (if requested = [] then defaultScopes else requested)"
  define res where "res = validate reg requested clientAllowed defaultScopes"
  have sc: "(if 0 < length requested then requested else defaultScopes) = scopes"
    by (simp add: scopes_def)
  have unfold: "res =
     (if scopes = [] then Inr []
      else case first_unregistered reg scopes of
             Some e \<Rightarrow> Inl e
           | None \<Rightarrow>
               (case clientAllowed of
                  None \<Rightarrow> Inr scopes
                | Some allowed \<Rightarrow>
                    (case first_disallowed allowed scopes of
                       Some e \<Rightarrow> Inl e
                     | None \<Rightarrow> Inr scopes)))"
    unfolding res_def validate_def Let_def sc by simp
  have throws: "isl res \<longleftrightarrow>
      (\<exists>s \<in> set scopes. \<not> has reg s \<or> (\<exists>a. clientAllowed = Some a \<and> s \<notin> set a))"
  proof (cases "first_unregistered reg scopes")
    case None
    then have reg_ok: "\<forall>s \<in> set scopes. has reg s"
      by (simp add: first_unregistered_None)
    show ?thesis
    proof (cases clientAllowed)
      case None
      with \<open>first_unregistered reg scopes = None\<close> reg_ok show ?thesis
        by (simp add: unfold)
    next
      case (Some allowed)
      show ?thesis
      proof (cases "first_disallowed allowed scopes")
        case None
        then have "\<forall>s \<in> set scopes. s \<in> set allowed"
          by (simp add: first_disallowed_None)
        with None Some \<open>first_unregistered reg scopes = None\<close> reg_ok show ?thesis
          by (simp add: unfold)
      next
        case (Some e)
        then have "\<not> (\<forall>s \<in> set scopes. s \<in> set allowed)"
          using first_disallowed_None [of allowed scopes] by simp
        moreover from Some have "scopes \<noteq> []" by auto
        ultimately show ?thesis
          using Some \<open>clientAllowed = Some allowed\<close> \<open>first_unregistered reg scopes = None\<close>
          by (auto simp: unfold)
      qed
    qed
  next
    case (Some e)
    then have "\<not> (\<forall>s \<in> set scopes. has reg s)"
      using first_unregistered_None [of reg scopes] by simp
    moreover from Some have "scopes \<noteq> []" by auto
    ultimately show ?thesis
      using Some by (auto simp: unfold)
  qed
  have code: "\<forall>e. res = Inl e \<longrightarrow> errorCode e = ''invalid_scope'' \<and> statusCode e = 400"
    by (auto simp: unfold split: if_splits option.splits
             dest: first_unregistered_code first_disallowed_code)
  have returns: "\<not> isl res \<longrightarrow> res = Inr scopes"
    by (auto simp: unfold split: if_splits option.splits)
  from throws code returns show ?thesis
    unfolding Let_def scopes_def [symmetric] res_def [symmetric] by blast
qed

theorem validate_spec_witness:
  "validate [(''read'', ''Read''), (''write'', ''Write'')] [''write'', ''read''] (Some [''read'', ''write'']) [''read'']
     = Inr [''write'', ''read''] \<and>
   validate [(''read'', ''Read''), (''write'', ''Write'')] [] None [''read''] = Inr [''read''] \<and>
   isl (validate [(''read'', ''Read''), (''write'', ''Write'')] [''read'', ''admin''] None [])  \<and>
   isl (validate [(''read'', ''Read''), (''write'', ''Write'')] [''read'', ''write''] (Some [''read'']) [])"
  using validate_spec [of "[''write'', ''read'']" "[''read'']" "[(''read'', ''Read''), (''write'', ''Write'')]"
                          "Some [''read'', ''write'']"]
        validate_spec [of "[]" "[''read'']" "[(''read'', ''Read''), (''write'', ''Write'')]" None]
        validate_spec [of "[''read'', ''admin'']" "[]" "[(''read'', ''Read''), (''write'', ''Write'')]" None]
        validate_spec [of "[''read'', ''write'']" "[]" "[(''read'', ''Read''), (''write'', ''Write'')]"
                          "Some [''read'']"]
  by (simp add: Let_def has_def)

section \<open>Token validation\<close>

lemma find_map_rows: "find P (map f xs) = map_option f (find (\<lambda>x. P (f x)) xs)"
  by (induction xs) auto

text \<open>
  C3 says that an access token whose \<open>expires_at\<close> equals the current time is rejected by
  \<open>OAuthToken.validate\<close>. The source rejects on \<open>expiresAt.getTime() < Date.now()\<close>, so
  at the boundary instant the token is still accepted, while the two listings of a user's
  active tokens, which select on \<open>expires_at > NOW()\<close>, leave it out at that instant, as
  the claim has it. The example token expires at 1000: at 1000 \<open>validate\<close> returns it and
  neither listing shows it; a millisecond earlier all three agree that it is active, a
  millisecond later that it is not.
\<close>

theorem validate_at_expires_at:
  "tk_expires_at example_token_row = 1000 \<and>
   fst (OAuthToken_validate example_digest 1000 ''access-1''
          \<lparr>clients = [], tokens = [example_token_row], auth_codes = []\<rparr>)
     = Some (hydrate_token example_token_row) \<and>
   OAuthToken_allForUser 1000 ''u2''
       \<lparr>clients = [], tokens = [example_token_row], auth_codes = []\<rparr> = [] \<and>
   OAuthToken_personalTokensFor (example_config\<lparr>cfg_personalAccessClient := Some client_1\<rparr>)
       1000 ''u2'' \<lparr>clients = [], tokens = [example_token_row], auth_codes = []\<rparr> = Inr [] \<and>
   fst (OAuthToken_validate example_digest 999 ''access-1''
          \<lparr>clients = [], tokens = [example_token_row], auth_codes = []\<rparr>)
     = Some (hydrate_token example_token_row) \<and>
   OAuthToken_allForUser 999 ''u2''
       \<lparr>clients = [], tokens = [example_token_row], auth_codes = []\<rparr>
     = [hydrate_token example_token_row] \<and>
   OAuthToken_personalTokensFor (example_config\<lparr>cfg_personalAccessClient := Some client_1\<rparr>)
       999 ''u2'' \<lparr>clients = [], tokens = [example_token_row], auth_codes = []\<rparr>
     = Inr [hydrate_token example_token_row] \<and>
   fst (OAuthToken_validate example_digest 1001 ''access-1''
          \<lparr>clients = [], tokens = [example_token_row], auth_codes = []\<rparr>) = None \<and>
   OAuthToken_allForUser 1001 ''u2''
       \<lparr>clients = [], tokens = [example_token_row], auth_codes = []\<rparr> = []"
  by (simp add: OAuthToken_validate_def OAuthToken_allForUser_def
        OAuthToken_personalTokensFor_def hydrate_token_def example_token_row_def
        example_config_def truthy_def uuid_in_def hyphen_after_def uuid_text_def
        hex_digit_def lower_hex_def Let_def)

text \<open>
  C10. \<open>OAuthToken.validateRefreshToken\<close> never consults the access token's
  \<open>expires_at\<close>: rewriting that column in any way does not change whether a refresh token
  is accepted. A stored, unrevoked refresh token is accepted whenever its
  \<open>refresh_expires_at\<close> is null or not yet past, whatever \<open>expires_at\<close> is; with a null
  \<open>refresh_expires_at\<close> it is accepted at every time.
\<close>

theorem validateRefreshToken_ignores_expires_at:
  "(OAuthToken_validateRefreshToken hex now plainRefresh
       (db\<lparr>tokens := map (\<lambda>r. r\<lparr>tk_expires_at := g r\<rparr>) (tokens db)\<rparr>) = None
     \<longleftrightarrow> OAuthToken_validateRefreshToken hex now plainRefresh db = None) \<and>
   (\<forall>row. find (\<lambda>r. tk_refresh_token r = Some (hex plainRefresh)) (tokens db) = Some row \<and>
          tk_revoked_at row = None \<and>
          (tk_refresh_expires_at row = None \<or> (\<exists>e. tk_refresh_expires_at row = Some e \<and> now \<le> e))
      \<longrightarrow> OAuthToken_validateRefreshToken hex now plainRefresh db = Some (hydrate_token row))"
proof -
  have fm: "find (\<lambda>r. tk_refresh_token r = Some (hex plainRefresh))
              (map (\<lambda>r. r\<lparr>tk_expires_at := g r\<rparr>) (tokens db))
            = map_option (\<lambda>r. r\<lparr>tk_expires_at := g r\<rparr>)
                (find (\<lambda>r. tk_refresh_token r = Some (hex plainRefresh)) (tokens db))"
    by (simp add: find_map_rows)
  show ?thesis
    by (auto simp: OAuthToken_validateRefreshToken_def fm hydrate_token_def Let_def
             split: option.splits)
qed

theorem validateRefreshToken_ignores_expires_at_witness:
  "OAuthToken_validateRefreshToken example_digest 5000 ''refresh-1''
      \<lparr>clients = [], tokens = [example_token_row], auth_codes = []\<rparr>
     = Some (hydrate_token example_token_row) \<and>
   tk_expires_at example_token_row < 5000"
  using validateRefreshToken_ignores_expires_at [where hex = example_digest and now = 5000
          and plainRefresh = "''refresh-1''"
          and db = "\<lparr>clients = [], tokens = [example_token_row], auth_codes = []\<rparr>"]
  by (simp add: example_token_row_def)

section \<open>Personal access tokens\<close>

text \<open>
  C9. \<open>DELETE /personal-tokens/:id\<close> revokes whatever token id it is given: the handler
  looks at neither the session user, nor the token's owner, nor its client, nor the
  configured personal-access client. For every existing token id, however the request
  spells it, the row's \<open>revoked_at\<close> is set to the current time and the response is the
  success message.
\<close>

theorem revokePersonalTokenHandler_any_token:
  assumes "r \<in> set (tokens db)" and "uuid_in tokenId = Some (tk_id r)"
  shows "fst (revokePersonalTokenHandler rt user tokenId db) =
           Inr (Json 200 (MessageJson ''Token revoked.'')) \<and>
         r\<lparr>tk_revoked_at := Some (rt_now rt)\<rparr>
           \<in> set (tokens (snd (revokePersonalTokenHandler rt user tokenId db))) \<and>
         (\<forall>r' \<in> set (tokens (snd (revokePersonalTokenHandler rt user tokenId db))).
            tk_id r' = tk_id r \<longrightarrow> tk_revoked_at r' = Some (rt_now rt))"
  using assms by (auto simp: revokePersonalTokenHandler_def OAuthToken_revoke_def)

theorem revokePersonalTokenHandler_any_token_witness:
  "tk_user_id example_token_row \<noteq> Some ''u1'' \<and>
   Some (tk_client_id example_token_row) \<noteq> cfg_personalAccessClient (rt_config example_runtime) \<and>
   revokePersonalTokenHandler example_runtime (JString ''u1'') token_1
       \<lparr>clients = [], tokens = [example_token_row], auth_codes = []\<rparr>
     = (Inr (Json 200 (MessageJson ''Token revoked.'')),
        \<lparr>clients = [], tokens = [example_token_row\<lparr>tk_revoked_at := Some 5000\<rparr>],
         auth_codes = []\<rparr>) \<and>
   revokePersonalTokenHandler example_runtime (JString ''u1'')
       ''70000000000040008000000000000001''
       \<lparr>clients = [], tokens = [example_token_row], auth_codes = []\<rparr>
     = (Inr (Json 200 (MessageJson ''Token revoked.'')),
        \<lparr>clients = [], tokens = [example_token_row\<lparr>tk_revoked_at := Some 5000\<rparr>],
         auth_codes = []\<rparr>)"
  using revokePersonalTokenHandler_any_token [where r = example_token_row
          and db = "\<lparr>clients = [], tokens = [example_token_row], auth_codes = []\<rparr>"
          and tokenId = token_1 and rt = example_runtime and user = "JString ''u1''"]
        revokePersonalTokenHandler_any_token [where r = example_token_row
          and db = "\<lparr>clients = [], tokens = [example_token_row], auth_codes = []\<rparr>"
          and tokenId = "''70000000000040008000000000000001''" and rt = example_runtime
          and user = "JString ''u1''"]
  by (simp add: example_token_row_def example_runtime_def example_config_def
        revokePersonalTokenHandler_def OAuthToken_revoke_def uuid_in_def hyphen_after_def
        uuid_text_def hex_digit_def lower_hex_def)

section \<open>Revocation of a token by id\<close>

text \<open>
  What any one operation makes of the token table: some rows are dropped, the rows kept
  are rewritten one by one, keeping their id and, when they were revoked, staying revoked,
  and rows may be appended.
\<close>

lemma run_op_shape:
  "\<exists>f P extra. tokens (run_op op db) = map f (filter P (tokens db)) @ extra \<and>
     (\<forall>r. tk_id (f r) = tk_id r) \<and>
     (\<forall>r. tk_revoked_at r \<noteq> None \<longrightarrow> tk_revoked_at (f r) \<noteq> None)"
proof (cases op)
  case (Op_create hex cfg now uuid r1 r2 params)
  show ?thesis
  proof (cases "OAuthToken_create hex cfg now uuid r1 r2 params db")
    case (Inl e)
    with Op_create show ?thesis
      by (intro exI [of _ "\<lambda>r. r"] exI [of _ "\<lambda>r. True"] exI [of _ "[]"]) simp
  next
    case (Inr res)
    obtain created db1 where res: "res = (created, db1)" by (cases res)
    from Inr res obtain new where "tokens db1 = tokens db @ [new]"
      by (auto simp: OAuthToken_create_def Let_def split: if_splits)
    with Op_create Inr res show ?thesis
      by (intro exI [of _ "\<lambda>r. r"] exI [of _ "\<lambda>r. True"] exI [of _ "[new]"]) simp
  qed
next
  case (Op_validate hex now plain)
  show ?thesis
  proof (cases "fst (OAuthToken_validate hex now plain db)")
    case None
    then have "snd (OAuthToken_validate hex now plain db) = db"
      by (auto simp: OAuthToken_validate_def Let_def split: option.splits if_splits)
    with Op_validate show ?thesis
      by (intro exI [of _ "\<lambda>r. r"] exI [of _ "\<lambda>r. True"] exI [of _ "[]"]) simp
  next
    case (Some rec)
    then have "tokens (snd (OAuthToken_validate hex now plain db)) =
        map (\<lambda>r. if tk_id r = t_id rec then r\<lparr>tk_last_used_at := Some now\<rparr> else r) (tokens db)"
      by (auto simp: OAuthToken_validate_def Let_def split: option.splits if_splits)
    with Op_validate show ?thesis
      by (intro exI [of _ "\<lambda>r. if tk_id r = t_id rec then r\<lparr>tk_last_used_at := Some now\<rparr> else r"]
                exI [of _ "\<lambda>r. True"] exI [of _ "[]"]) simp
  qed
next
  case (Op_revoke now ident)
  then show ?thesis
    by (intro exI [of _ "\<lambda>r. if tk_id r = ident then r\<lparr>tk_revoked_at := Some now\<rparr> else r"]
              exI [of _ "\<lambda>r. True"] exI [of _ "[]"])
       (simp add: OAuthToken_revoke_def)
next
  case (Op_revokeAllFor now userId)
  then show ?thesis
    by (intro exI [of _ "\<lambda>r. if tk_user_id r = Some userId \<and> tk_revoked_at r = None
                             then r\<lparr>tk_revoked_at := Some now\<rparr> else r"]
              exI [of _ "\<lambda>r. True"] exI [of _ "[]"])
       (simp add: OAuthToken_revokeAllFor_def)
next
  case (Op_revokeAllForClient now userId clientId)
  then show ?thesis
    by (intro exI [of _ "\<lambda>r. if tk_user_id r = Some userId \<and> tk_client_id r = clientId \<and>
                                tk_revoked_at r = None
                             then r\<lparr>tk_revoked_at := Some now\<rparr> else r"]
              exI [of _ "\<lambda>r. True"] exI [of _ "[]"])
       (simp add: OAuthToken_revokeAllForClient_def)
next
  case (Op_prune now days)
  then show ?thesis
    by (intro exI [of _ "\<lambda>r. r"] exI [of _ "\<lambda>r. \<not> prunable now days r"] exI [of _ "[]"])
       (simp add: OAuthToken_prune_def)
next
  case (Op_destroy ident)
  then show ?thesis
    by (intro exI [of _ "\<lambda>r. r"] exI [of _ "\<lambda>r. tk_client_id r \<noteq> ident"] exI [of _ "[]"])
       (simp add: OAuthClient_destroy_def)
qed

text \<open>
  The same of any sequence of operations: no operation on the token table clears
  \<open>revoked_at\<close>. A row of the table that is revoked is, after the sequence, either gone
  or still revoked.
\<close>

lemma revoked_at_never_cleared:
  "\<exists>f P extra. tokens (run_ops ops db) = map f (filter P (tokens db)) @ extra \<and>
     (\<forall>r. tk_id (f r) = tk_id r) \<and>
     (\<forall>r. tk_revoked_at r \<noteq> None \<longrightarrow> tk_revoked_at (f r) \<noteq> None)"
proof (induction ops arbitrary: db)
  case Nil
  show ?case
    by (intro exI [of _ "\<lambda>r. r"] exI [of _ "\<lambda>r. True"] exI [of _ "[]"]) (simp add: run_ops_def)
next
  case (Cons op ops)
  from run_op_shape [of op db] obtain f0 P0 extra0 where
    s0: "tokens (run_op op db) = map f0 (filter P0 (tokens db)) @ extra0"
    and id0: "\<And>r. tk_id (f0 r) = tk_id r"
    and rev0: "\<And>r. tk_revoked_at r \<noteq> None \<Longrightarrow> tk_revoked_at (f0 r) \<noteq> None"
    by blast
  from Cons.IH [of "run_op op db"] obtain f P extra where
    s1: "tokens (run_ops ops (run_op op db)) = map f (filter P (tokens (run_op op db))) @ extra"
    and id1: "\<And>r. tk_id (f r) = tk_id r"
    and rev1: "\<And>r. tk_revoked_at r \<noteq> None \<Longrightarrow> tk_revoked_at (f r) \<noteq> None"
    by blast
  have step: "run_ops (op # ops) db = run_ops ops (run_op op db)"
    by (simp add: run_ops_def)
  have "tokens (run_ops (op # ops) db) =
          map (\<lambda>r. f (f0 r)) (filter (\<lambda>r. P0 r \<and> P (f0 r)) (tokens db)) @
          (map f (filter P extra0) @ extra)"
    unfolding step s1 s0 by (simp add: filter_map comp_def)
  then show ?case
    using id0 id1 rev0 rev1
    by (intro exI [of _ "\<lambda>r. f (f0 r)"] exI [of _ "\<lambda>r. P0 r \<and> P (f0 r)"]
              exI [of _ "map f (filter P extra0) @ extra"]) simp
qed

text \<open>
  The two bulk revocations select on \<open>revoked_at IS NULL\<close> and so leave a row that is
  already revoked as it is: a second call changes nothing, whenever it is made.
\<close>

lemma revokeAllFor_twice:
  "OAuthToken_revokeAllFor second_time userId (OAuthToken_revokeAllFor first_time userId db)
     = OAuthToken_revokeAllFor first_time userId db"
  by (simp add: OAuthToken_revokeAllFor_def comp_def cong: map_cong)

lemma revokeAllForClient_twice:
  "OAuthToken_revokeAllForClient second_time userId clientId
      (OAuthToken_revokeAllForClient first_time userId clientId db)
     = OAuthToken_revokeAllForClient first_time userId clientId db"
  by (simp add: OAuthToken_revokeAllForClient_def comp_def cong: map_cong)

text \<open>\<open>revoke(id)\<close> has no such condition: the second call's time replaces the first's.\<close>

lemma revoke_latest_wins:
  "OAuthToken_revoke second_time ident (OAuthToken_revoke first_time ident db)
     = OAuthToken_revoke second_time ident db"
  by (simp add: OAuthToken_revoke_def comp_def cong: map_cong)

text \<open>
  C7 says that \<open>revoke(id); revoke(id)\<close> leaves the store as one \<open>revoke(id)\<close> does. The
  \<open>UPDATE\<close> of \<open>OAuthToken.revoke\<close> lacks the \<open>revoked_at IS NULL\<close> condition of its two
  siblings, so a second call overwrites \<open>revoked_at\<close> with the later time. On the example
  token, revoked at 1000 and again three days later: the two stores differ in
  \<open>revoked_at\<close>; \<open>OAuthToken.prune\<close> tells them apart, removing the token eight days
  after the first call under a seven-day retention when it was revoked once, and keeping
  it when it was revoked twice; and \<open>revokeAllFor\<close> and \<open>revokeAllForClient\<close>, called at
  the same two times, leave the store as their first call left it.
\<close>

theorem revoke_twice_overwrites:
  "OAuthToken_revoke 259201000 token_1
      (OAuthToken_revoke 1000 token_1
         \<lparr>clients = [], tokens = [example_refresh_row], auth_codes = []\<rparr>)
     \<noteq> OAuthToken_revoke 1000 token_1
         \<lparr>clients = [], tokens = [example_refresh_row], auth_codes = []\<rparr> \<and>
   map tk_revoked_at
     (tokens (OAuthToken_revoke 1000 token_1
                \<lparr>clients = [], tokens = [example_refresh_row], auth_codes = []\<rparr>))
     = [Some 1000] \<and>
   map tk_revoked_at
     (tokens (OAuthToken_revoke 259201000 token_1
                (OAuthToken_revoke 1000 token_1
                   \<lparr>clients = [], tokens = [example_refresh_row], auth_codes = []\<rparr>)))
     = [Some 259201000] \<and>
   fst (OAuthToken_prune 691201000 7
          (OAuthToken_revoke 1000 token_1
             \<lparr>clients = [], tokens = [example_refresh_row], auth_codes = []\<rparr>)) = 1 \<and>
   fst (OAuthToken_prune 691201000 7
          (OAuthToken_revoke 259201000 token_1
             (OAuthToken_revoke 1000 token_1
                \<lparr>clients = [], tokens = [example_refresh_row], auth_codes = []\<rparr>))) = 0 \<and>
   OAuthToken_revokeAllFor 259201000 ''u2''
      (OAuthToken_revokeAllFor 1000 ''u2''
         \<lparr>clients = [], tokens = [example_refresh_row], auth_codes = []\<rparr>)
     = OAuthToken_revokeAllFor 1000 ''u2''
         \<lparr>clients = [], tokens = [example_refresh_row], auth_codes = []\<rparr> \<and>
   OAuthToken_revokeAllForClient 259201000 ''u2'' client_1
      (OAuthToken_revokeAllForClient 1000 ''u2'' client_1
         \<lparr>clients = [], tokens = [example_refresh_row], auth_codes = []\<rparr>)
     = OAuthToken_revokeAllForClient 1000 ''u2'' client_1
         \<lparr>clients = [], tokens = [example_refresh_row], auth_codes = []\<rparr> \<and>
   map tk_revoked_at
     (tokens (OAuthToken_revokeAllFor 1000 ''u2''
                \<lparr>clients = [], tokens = [example_refresh_row], auth_codes = []\<rparr>))
     = [Some 1000]"
  by (simp add: OAuthToken_revoke_def OAuthToken_prune_def prunable_def
        OAuthToken_revokeAllFor_def OAuthToken_revokeAllForClient_def example_refresh_row_def
        Let_def)

section \<open>The revocation endpoint\<close>






section \<open>Consuming an authorization code\<close>














section \<open>The refresh-token grant\<close>

lemma errorResponse_simps:
  "errorResponse (InvalidRequestError m) = Json 400 (ErrorJson ''invalid_request'' m)"
  "errorResponse (InvalidClientError m) = Json 401 (ErrorJson ''invalid_client'' m)"
  "errorResponse (InvalidGrantError m) = Json 400 (ErrorJson ''invalid_grant'' m)"
  "errorResponse InvalidClientError_default =
     Json 401 (ErrorJson ''invalid_client'' ''Client authentication failed.'')"
  "errorResponse InvalidGrantError_default =
     Json 400 (ErrorJson ''invalid_grant''
       ''The provided authorization grant is invalid, expired, or revoked.'')"
  by (simp_all add: errorResponse_def toJSON_def InvalidRequestError_def InvalidClientError_def
        InvalidGrantError_def InvalidClientError_default_def InvalidGrantError_default_def)

lemma find_append_Some: "find P xs = Some x \<Longrightarrow> find P (xs @ ys) = Some x"
  by (induction xs) (auto split: if_splits)

lemma validateRefreshToken_Some:
  assumes "OAuthToken_validateRefreshToken hex now plain db = Some old"
  obtains row where
    "find (\<lambda>r. tk_refresh_token r = Some (hex plain)) (tokens db) = Some row"
    "old = hydrate_token row" "tk_revoked_at row = None"
  using assms
  by (auto simp: OAuthToken_validateRefreshToken_def Let_def hydrate_token_def
           split: option.splits if_splits)

lemma validateRefreshToken_revoked:
  assumes "find (\<lambda>r. tk_refresh_token r = Some (hex plain)) (tokens db) = Some row"
      and "tk_revoked_at row \<noteq> None"
  shows "OAuthToken_validateRefreshToken hex now plain db = None"
  using assms by (simp add: OAuthToken_validateRefreshToken_def Let_def hydrate_token_def)

lemma find_after_revoke:
  assumes "find (\<lambda>r. tk_refresh_token r = Some h) (tokens db) = Some row"
  shows "find (\<lambda>r. tk_refresh_token r = Some h) (tokens (OAuthToken_revoke t (tk_id row) db))
         = Some (row\<lparr>tk_revoked_at := Some t\<rparr>)"
proof -
  have m: "find (\<lambda>r. tk_refresh_token r = Some h)
          (map (\<lambda>r. if tk_id r = tk_id row then r\<lparr>tk_revoked_at := Some t\<rparr> else r) xs)
        = map_option (\<lambda>r. if tk_id r = tk_id row then r\<lparr>tk_revoked_at := Some t\<rparr> else r)
            (find (\<lambda>r. tk_refresh_token r = Some h) xs)" for xs
    by (induction xs) auto
  show ?thesis by (simp add: OAuthToken_revoke_def m assms)
qed

lemma create_shape:
  assumes "OAuthToken_create hex cfg now uuid r1 r2 params db = Inr (created, db')"
  obtains row where "tokens db' = tokens db @ [row]" "clients db' = clients db"
    "tk_scopes row = p_scopes params" "t_scopes (r_tokenData created) = p_scopes params"
    "tk_revoked_at row = None"
  using assms
  by (auto simp: OAuthToken_create_def Let_def hydrate_token_def split: if_splits)

lemma revoke_clients [simp]: "clients (OAuthToken_revoke t i db) = clients db"
  by (simp add: OAuthToken_revoke_def)

lemma find_client_cong:
  "clients db' = clients db \<Longrightarrow> OAuthClient_find db' i = OAuthClient_find db i"
  by (simp add: OAuthClient_find_def split: option.splits)

lemma verifySecret_cong:
  "clients db' = clients db \<Longrightarrow> verifySecret hex db' c s = verifySecret hex db c s"
  by (simp add: verifySecret_def)

text \<open>What it takes for a refresh request to get as far as the scope check.\<close>

lemma refresh_unfold:
  assumes "truthy (body ''refresh_token'')" "truthy (body ''client_id'')"
      and "OAuthClient_find db (the (body ''client_id'')) = Inr (Some client)"
      and "\<not> c_revoked client"
      and "c_confidential client \<longrightarrow>
             truthy (body ''client_secret'') \<and>
             verifySecret (rt_hex rt) db client (the (body ''client_secret''))"
      and "OAuthToken_validateRefreshToken (rt_hex rt) (rt_now rt) (the (body ''refresh_token'')) db
             = Some old"
      and "t_clientId old = the (body ''client_id'')"
  shows "handleRefreshToken rt body db =
    (let requested = filter_Boolean (split_space (the (body ''scope'')));
         widened = filter (\<lambda>s. s \<notin> set (t_scopes old)) requested
     in if truthy (body ''scope'') \<and> widened \<noteq> []
        then (Inr (Json 400 (ErrorJson ''invalid_request''
                (''Cannot widen scopes on refresh. Unknown scopes: '' @ join '', '' widened))), db)
        else case OAuthToken_create (rt_hex rt) (rt_config rt) (rt_now rt) (rt_uuid rt)
                    (rt_randomHex1 rt) (rt_randomHex2 rt)
                    \<lparr>p_userId = t_userId old, p_clientId = the (body ''client_id''),
                     p_scopes = (if truthy (body ''scope'') then requested else t_scopes old),
                     p_name = None, p_includeRefreshToken = Some True,
                     p_accessTokenLifetime = None, p_refreshTokenLifetime = None\<rparr>
                    (OAuthToken_revoke (rt_now rt) (t_id old) db) of
               Inl e \<Rightarrow> (Inl e, OAuthToken_revoke (rt_now rt) (t_id old) db)
             | Inr (created, db2) \<Rightarrow>
                 (Inr (tokenResponse (rt_now rt) (r_accessToken created) (r_refreshToken created)
                         (t_scopes (r_tokenData created)) (t_expiresAt (r_tokenData created))),
                  db2))"
  using assms
  by (cases "c_confidential client")
     (simp_all add: handleRefreshToken_def Let_def errorResponse_simps array_includes_def)

text \<open>A request that is not answered 400 or 401 came with both parameters.\<close>

lemma refresh_parameters:
  assumes "(\<exists>e. fst (handleRefreshToken rt body db) = Inl e) \<or>
           (\<exists>j. fst (handleRefreshToken rt body db) = Inr (Json 200 j))"
  shows "truthy (body ''refresh_token'') \<and> truthy (body ''client_id'')"
proof (rule ccontr)
  assume "\<not> ?thesis"
  then have "\<exists>m. fst (handleRefreshToken rt body db) = Inr (Json 400 m)"
    by (auto simp: handleRefreshToken_def Let_def errorResponse_simps)
  with assms show False by auto
qed

text \<open>The client lookup throws on a \<open>client_id\<close> that does not read as a uuid.\<close>

lemma refresh_lookup_throws:
  assumes "truthy (body ''refresh_token'')" "truthy (body ''client_id'')"
      and "uuid_in (the (body ''client_id'')) = None"
  shows "handleRefreshToken rt body db = (Inl DataError, db)"
  using assms by (simp add: handleRefreshToken_def Let_def OAuthClient_find_def)

lemma refresh_reached:
  assumes "(\<exists>e. fst (handleRefreshToken rt body db) = Inl e) \<or>
           (\<exists>j. fst (handleRefreshToken rt body db) = Inr (Json 200 j))"
      and readable: "uuid_in (the (body ''client_id'')) \<noteq> None"
  obtains client old where
    "truthy (body ''refresh_token'')" "truthy (body ''client_id'')"
    "OAuthClient_find db (the (body ''client_id'')) = Inr (Some client)"
    "\<not> c_revoked client"
    "c_confidential client \<longrightarrow>
       truthy (body ''client_secret'') \<and>
       verifySecret (rt_hex rt) db client (the (body ''client_secret''))"
    "OAuthToken_validateRefreshToken (rt_hex rt) (rt_now rt) (the (body ''refresh_token'')) db
       = Some old"
    "t_clientId old = the (body ''client_id'')"
proof -
  let ?r = "handleRefreshToken rt body db"
  have ne: "fst ?r \<noteq> Inr (Json 400 m)" "fst ?r \<noteq> Inr (Json 401 m)" for m
    using assms(1) by auto
  have a: "truthy (body ''refresh_token'') \<and> truthy (body ''client_id'')"
    using assms(1) by (rule refresh_parameters)
  from readable obtain u where u: "uuid_in (the (body ''client_id'')) = Some u"
    by auto
  define found where
    "found = map_option hydrate_client (find (\<lambda>r. cl_id r = u) (clients db))"
  have f: "OAuthClient_find db (the (body ''client_id'')) = Inr found"
    by (simp add: OAuthClient_find_def u found_def split: option.splits)
  obtain client where c: "OAuthClient_find db (the (body ''client_id'')) = Inr (Some client)"
  proof (cases found)
    case None
    with a f have "\<exists>m. fst ?r = Inr (Json 401 m)"
      by (simp add: handleRefreshToken_def Let_def errorResponse_simps)
    with ne show ?thesis by blast
  next
    case (Some client)
    with f show ?thesis by (intro that) simp
  qed
  have r: "\<not> c_revoked client"
  proof
    assume "c_revoked client"
    with a c have "\<exists>m. fst ?r = Inr (Json 401 m)"
      by (simp add: handleRefreshToken_def Let_def errorResponse_simps)
    with ne show False by blast
  qed
  have s: "c_confidential client \<longrightarrow>
       truthy (body ''client_secret'') \<and>
       verifySecret (rt_hex rt) db client (the (body ''client_secret''))"
  proof (rule ccontr)
    assume "\<not> ?thesis"
    with a c r have "\<exists>m. fst ?r = Inr (Json 401 m)"
      by (auto simp: handleRefreshToken_def Let_def errorResponse_simps)
    with ne show False by blast
  qed
  obtain old where o: "OAuthToken_validateRefreshToken (rt_hex rt) (rt_now rt)
                         (the (body ''refresh_token'')) db = Some old"
  proof (cases "OAuthToken_validateRefreshToken (rt_hex rt) (rt_now rt)
                  (the (body ''refresh_token'')) db")
    case None
    with a c r s have "\<exists>m. fst ?r = Inr (Json 400 m)"
      by (cases "c_confidential client")
         (simp_all add: handleRefreshToken_def Let_def errorResponse_simps)
    with ne show ?thesis by blast
  next
    case (Some old)
    then show ?thesis by (rule that)
  qed
  have i: "t_clientId old = the (body ''client_id'')"
  proof (rule ccontr)
    assume "\<not> ?thesis"
    with a c r s o have "\<exists>m. fst ?r = Inr (Json 400 m)"
      by (cases "c_confidential client")
         (simp_all add: handleRefreshToken_def Let_def errorResponse_simps)
    with ne show False by blast
  qed
  from a c r s o i show ?thesis by (intro that [of client old]) auto
qed

lemma refresh_replay:
  assumes reach: "truthy (body ''refresh_token'')" "truthy (body ''client_id'')"
      "OAuthClient_find db (the (body ''client_id'')) = Inr (Some client)"
      "\<not> c_revoked client"
      "c_confidential client \<longrightarrow>
         truthy (body ''client_secret'') \<and>
         verifySecret (rt_hex rt) db client (the (body ''client_secret''))"
    and cl: "clients db' = clients db"
    and hx: "rt_hex rt' = rt_hex rt"
    and gone: "OAuthToken_validateRefreshToken (rt_hex rt) (rt_now rt')
                 (the (body ''refresh_token'')) db' = None"
  shows "handleRefreshToken rt' body db' =
           (Inr (Json 400 (ErrorJson ''invalid_grant''
              ''The provided authorization grant is invalid, expired, or revoked.'')), db')"
  using reach gone
  by (cases "c_confidential client")
     (simp_all add: handleRefreshToken_def Let_def errorResponse_simps hx
        find_client_cong [OF cl] verifySecret_cong [OF cl])

text \<open>
  C5. Take a refresh request for which the handler either answers 200 or throws. A throw
  has one of two origins. The client lookup throws on a \<open>client_id\<close> that does not read
  as a uuid, before a token is looked at, and the database is left as it was. Otherwise
  the request got past every check, so that the handler either answers 200 or throws while
  issuing. Then the refresh token validated to a row; the
  handler's result is what \<open>OAuthToken.create\<close> makes of the database in which that row
  already has \<open>revoked_at\<close> set (the revocation is applied first, the insertion second,
  and only the insertion can fail); and whichever way the insertion went, the same request
  sent again, at any later time, is answered 400 \<open>invalid_grant\<close> and changes nothing.
\<close>

theorem refresh_rotation:
  assumes "(\<exists>e. fst (handleRefreshToken rt body db) = Inl e) \<or>
           (\<exists>j. fst (handleRefreshToken rt body db) = Inr (Json 200 j))"
  shows "(uuid_in (the (body ''client_id'')) = None \<and>
          handleRefreshToken rt body db = (Inl DataError, db)) \<or>
    (\<exists>old scopes.
     OAuthToken_validateRefreshToken (rt_hex rt) (rt_now rt) (the (body ''refresh_token'')) db
       = Some old \<and>
     (\<exists>r \<in> set (tokens (OAuthToken_revoke (rt_now rt) (t_id old) db)). tk_id r = t_id old) \<and>
     (\<forall>r \<in> set (tokens (OAuthToken_revoke (rt_now rt) (t_id old) db)).
        tk_id r = t_id old \<longrightarrow> tk_revoked_at r = Some (rt_now rt)) \<and>
     handleRefreshToken rt body db =
       (case OAuthToken_create (rt_hex rt) (rt_config rt) (rt_now rt) (rt_uuid rt)
               (rt_randomHex1 rt) (rt_randomHex2 rt)
               \<lparr>p_userId = t_userId old, p_clientId = the (body ''client_id''),
                p_scopes = scopes, p_name = None, p_includeRefreshToken = Some True,
                p_accessTokenLifetime = None, p_refreshTokenLifetime = None\<rparr>
               (OAuthToken_revoke (rt_now rt) (t_id old) db) of
          Inl e \<Rightarrow> (Inl e, OAuthToken_revoke (rt_now rt) (t_id old) db)
        | Inr (created, db2) \<Rightarrow>
            (Inr (tokenResponse (rt_now rt) (r_accessToken created) (r_refreshToken created)
                    (t_scopes (r_tokenData created)) (t_expiresAt (r_tokenData created))),
             db2)) \<and>
     (\<forall>rt'. rt_hex rt' = rt_hex rt \<longrightarrow>
        handleRefreshToken rt' body (snd (handleRefreshToken rt body db)) =
          (Inr (Json 400 (ErrorJson ''invalid_grant''
             ''The provided authorization grant is invalid, expired, or revoked.'')),
           snd (handleRefreshToken rt body db))))"
proof (cases "uuid_in (the (body ''client_id''))")
  case None
  from assms have "truthy (body ''refresh_token'') \<and> truthy (body ''client_id'')"
    by (rule refresh_parameters)
  with None have "handleRefreshToken rt body db = (Inl DataError, db)"
    by (intro refresh_lookup_throws) simp_all
  with None show ?thesis by blast
next
  case (Some u)
  then have readable: "uuid_in (the (body ''client_id'')) \<noteq> None" by simp
  from assms readable obtain client old where reach:
    "truthy (body ''refresh_token'')" "truthy (body ''client_id'')"
    "OAuthClient_find db (the (body ''client_id'')) = Inr (Some client)"
    "\<not> c_revoked client"
    "c_confidential client \<longrightarrow>
       truthy (body ''client_secret'') \<and>
       verifySecret (rt_hex rt) db client (the (body ''client_secret''))"
    and old: "OAuthToken_validateRefreshToken (rt_hex rt) (rt_now rt)
                (the (body ''refresh_token'')) db = Some old"
    and cid: "t_clientId old = the (body ''client_id'')"
    by (rule refresh_reached)
  define requested where "requested = filter_Boolean (split_space (the (body ''scope'')))"
  define params where "params =
     \<lparr>p_userId = t_userId old, p_clientId = the (body ''client_id''),
      p_scopes = (if truthy (body ''scope'') then requested else t_scopes old),
      p_name = None, p_includeRefreshToken = Some True,
      p_accessTokenLifetime = None, p_refreshTokenLifetime = None\<rparr>"
  define db1 where "db1 = OAuthToken_revoke (rt_now rt) (t_id old) db"
  let ?create = "OAuthToken_create (rt_hex rt) (rt_config rt) (rt_now rt) (rt_uuid rt)
                   (rt_randomHex1 rt) (rt_randomHex2 rt) params db1"
  have unf: "handleRefreshToken rt body db =
      (if truthy (body ''scope'') \<and> filter (\<lambda>s. s \<notin> set (t_scopes old)) requested \<noteq> []
       then (Inr (Json 400 (ErrorJson ''invalid_request''
               (''Cannot widen scopes on refresh. Unknown scopes: '' @
                join '', '' (filter (\<lambda>s. s \<notin> set (t_scopes old)) requested)))), db)
       else case ?create of
              Inl e \<Rightarrow> (Inl e, db1)
            | Inr (created, db2) \<Rightarrow>
                (Inr (tokenResponse (rt_now rt) (r_accessToken created) (r_refreshToken created)
                        (t_scopes (r_tokenData created)) (t_expiresAt (r_tokenData created))),
                 db2))"
    unfolding refresh_unfold [OF reach old cid] Let_def requested_def params_def db1_def ..
  have nowiden: "\<not> (truthy (body ''scope'') \<and>
                     filter (\<lambda>s. s \<notin> set (t_scopes old)) requested \<noteq> [])"
  proof
    assume "truthy (body ''scope'') \<and> filter (\<lambda>s. s \<notin> set (t_scopes old)) requested \<noteq> []"
    then have "\<exists>m. fst (handleRefreshToken rt body db) = Inr (Json 400 m)"
      by (simp add: unf)
    with assms show False by auto
  qed
  have res: "handleRefreshToken rt body db =
      (case ?create of
         Inl e \<Rightarrow> (Inl e, db1)
       | Inr (created, db2) \<Rightarrow>
           (Inr (tokenResponse (rt_now rt) (r_accessToken created) (r_refreshToken created)
                   (t_scopes (r_tokenData created)) (t_expiresAt (r_tokenData created))),
            db2))"
    unfolding unf using nowiden by (rule if_not_P)
  from old obtain row where
      row: "find (\<lambda>r. tk_refresh_token r = Some (rt_hex rt (the (body ''refresh_token''))))
              (tokens db) = Some row"
    and hy: "old = hydrate_token row"
    by (rule validateRefreshToken_Some)
  have idrow: "tk_id row = t_id old" by (simp add: hy hydrate_token_def)
  have rowin: "row \<in> set (tokens db)" using row by (auto simp: find_Some_iff)
  have f1: "find (\<lambda>r. tk_refresh_token r = Some (rt_hex rt (the (body ''refresh_token''))))
              (tokens db1) = Some (row\<lparr>tk_revoked_at := Some (rt_now rt)\<rparr>)"
    unfolding db1_def idrow [symmetric] by (rule find_after_revoke [OF row])
  have "row\<lparr>tk_revoked_at := Some (rt_now rt)\<rparr> \<in> set (tokens db1)"
    using f1 by (auto simp: find_Some_iff)
  then have present: "\<exists>r \<in> set (tokens db1). tk_id r = t_id old"
    using idrow by (intro bexI [of _ "row\<lparr>tk_revoked_at := Some (rt_now rt)\<rparr>"]) simp_all
  have revoked: "\<forall>r \<in> set (tokens db1). tk_id r = t_id old \<longrightarrow>
                   tk_revoked_at r = Some (rt_now rt)"
    by (auto simp: db1_def OAuthToken_revoke_def)
  have after: "clients (snd (handleRefreshToken rt body db)) = clients db \<and>
               find (\<lambda>r. tk_refresh_token r = Some (rt_hex rt (the (body ''refresh_token''))))
                 (tokens (snd (handleRefreshToken rt body db)))
               = Some (row\<lparr>tk_revoked_at := Some (rt_now rt)\<rparr>)"
  proof (cases ?create)
    case (Inl e)
    then show ?thesis by (simp add: res f1) (simp add: db1_def)
  next
    case (Inr p)
    obtain created db2 where p: "p = (created, db2)" by (cases p)
    from Inr p obtain new where "tokens db2 = tokens db1 @ [new]" "clients db2 = clients db1"
      by (auto elim: create_shape)
    with Inr p show ?thesis
      by (simp add: res find_append_Some [OF f1]) (simp add: db1_def)
  qed
  have replay: "handleRefreshToken rt' body (snd (handleRefreshToken rt body db)) =
          (Inr (Json 400 (ErrorJson ''invalid_grant''
             ''The provided authorization grant is invalid, expired, or revoked.'')),
           snd (handleRefreshToken rt body db))" if hx: "rt_hex rt' = rt_hex rt" for rt'
  proof -
    have "OAuthToken_validateRefreshToken (rt_hex rt) (rt_now rt')
            (the (body ''refresh_token'')) (snd (handleRefreshToken rt body db)) = None"
      using after by (intro validateRefreshToken_revoked) auto
    with reach after hx show ?thesis by (intro refresh_replay [of body db client rt]) auto
  qed
  from old present revoked res replay show ?thesis
    unfolding db1_def params_def by blast
qed

theorem refresh_rotation_witness:
  "handleRefreshToken example_runtime
      [''refresh_token'' \<mapsto> ''refresh-1'', ''client_id'' \<mapsto> client_1, ''client_secret'' \<mapsto> ''s3cret'']
      example_db
     = (Inr (Json 200 (TokenJson ''access-2'' ''Bearer'' 3600 ''read'' (Some ''refresh-2''))),
        \<lparr>clients = [example_client_row],
         tokens = [example_refresh_row\<lparr>tk_revoked_at := Some 5000\<rparr>,
                   \<lparr>tk_id = token_2, tk_user_id = Some ''u2'', tk_client_id = client_1,
                    tk_name = None, tk_scopes = [''read''],
                    tk_token = example_digest ''access-2'',
                    tk_refresh_token = Some (example_digest ''refresh-2''),
                    tk_expires_at = 3605000, tk_refresh_expires_at = Some 2592005000,
                    tk_last_used_at = None, tk_revoked_at = None, tk_created_at = 5000\<rparr>],
         auth_codes = []\<rparr>) \<and>
   fst (handleRefreshToken (example_runtime\<lparr>rt_now := 6000\<rparr>)
          [''refresh_token'' \<mapsto> ''refresh-1'', ''client_id'' \<mapsto> client_1, ''client_secret'' \<mapsto> ''s3cret'']
          (snd (handleRefreshToken example_runtime
                  [''refresh_token'' \<mapsto> ''refresh-1'', ''client_id'' \<mapsto> client_1,
                   ''client_secret'' \<mapsto> ''s3cret'']
                  example_db)))
     = Inr (Json 400 (ErrorJson ''invalid_grant''
              ''The provided authorization grant is invalid, expired, or revoked.'')) \<and>
   handleRefreshToken (example_runtime\<lparr>rt_uuid := token_1\<rparr>)
      [''refresh_token'' \<mapsto> ''refresh-1'', ''client_id'' \<mapsto> client_1, ''client_secret'' \<mapsto> ''s3cret'']
      example_db
     = (Inl DbError,
        \<lparr>clients = [example_client_row],
         tokens = [example_refresh_row\<lparr>tk_revoked_at := Some 5000\<rparr>], auth_codes = []\<rparr>) \<and>
   fst (handleRefreshToken example_runtime
          [''refresh_token'' \<mapsto> ''refresh-1'', ''client_id'' \<mapsto> client_1, ''client_secret'' \<mapsto> ''s3cret'']
          (snd (handleRefreshToken (example_runtime\<lparr>rt_uuid := token_1\<rparr>)
                  [''refresh_token'' \<mapsto> ''refresh-1'', ''client_id'' \<mapsto> client_1,
                   ''client_secret'' \<mapsto> ''s3cret'']
                  example_db)))
     = Inr (Json 400 (ErrorJson ''invalid_grant''
              ''The provided authorization grant is invalid, expired, or revoked.''))"
proof -
  let ?body = "[''refresh_token'' \<mapsto> ''refresh-1'', ''client_id'' \<mapsto> client_1,
                ''client_secret'' \<mapsto> ''s3cret'']"
  let ?failing = "example_runtime\<lparr>rt_uuid := token_1\<rparr>"
  note defs = handleRefreshToken_def example_runtime_def example_config_def example_db_def
          example_client_row_def example_refresh_row_def example_digest_def truthy_def
          OAuthClient_find_def hydrate_client_def verifySecret_def timingSafeEqual_def
          OAuthToken_validateRefreshToken_def hydrate_token_def OAuthToken_revoke_def
          OAuthToken_create_def tokenResponse_def Let_def errorResponse_simps
          uuid_in_def hyphen_after_def uuid_text_def hex_digit_def lower_hex_def
  have run: "handleRefreshToken example_runtime ?body example_db
     = (Inr (Json 200 (TokenJson ''access-2'' ''Bearer'' 3600 ''read'' (Some ''refresh-2''))),
        \<lparr>clients = [example_client_row],
         tokens = [example_refresh_row\<lparr>tk_revoked_at := Some 5000\<rparr>,
                   \<lparr>tk_id = token_2, tk_user_id = Some ''u2'', tk_client_id = client_1,
                    tk_name = None, tk_scopes = [''read''],
                    tk_token = example_digest ''access-2'',
                    tk_refresh_token = Some (example_digest ''refresh-2''),
                    tk_expires_at = 3605000, tk_refresh_expires_at = Some 2592005000,
                    tk_last_used_at = None, tk_revoked_at = None, tk_created_at = 5000\<rparr>],
         auth_codes = []\<rparr>)"
    by (simp add: defs)
  have hyp: "(\<exists>e. fst (handleRefreshToken example_runtime ?body example_db) = Inl e) \<or>
             (\<exists>j. fst (handleRefreshToken example_runtime ?body example_db) = Inr (Json 200 j))"
    unfolding run by simp
  have readable: "uuid_in (the (?body ''client_id'')) \<noteq> None"
    by (simp add: uuid_in_def hyphen_after_def uuid_text_def hex_digit_def lower_hex_def)
  have "rt_hex (example_runtime\<lparr>rt_now := 6000\<rparr>) = rt_hex example_runtime" by simp
  with refresh_rotation [OF hyp] readable
  have replay: "handleRefreshToken (example_runtime\<lparr>rt_now := 6000\<rparr>) ?body
          (snd (handleRefreshToken example_runtime ?body example_db)) =
          (Inr (Json 400 (ErrorJson ''invalid_grant''
             ''The provided authorization grant is invalid, expired, or revoked.'')),
           snd (handleRefreshToken example_runtime ?body example_db))"
    by blast
  have fail: "handleRefreshToken ?failing ?body example_db
     = (Inl DbError,
        \<lparr>clients = [example_client_row],
         tokens = [example_refresh_row\<lparr>tk_revoked_at := Some 5000\<rparr>], auth_codes = []\<rparr>)"
    by (simp add: defs)
  have hyp2: "(\<exists>e. fst (handleRefreshToken ?failing ?body example_db) = Inl e) \<or>
              (\<exists>j. fst (handleRefreshToken ?failing ?body example_db) = Inr (Json 200 j))"
    unfolding fail by simp
  have "rt_hex example_runtime = rt_hex ?failing" by simp
  with refresh_rotation [OF hyp2] readable
  have replay2: "handleRefreshToken example_runtime ?body
          (snd (handleRefreshToken ?failing ?body example_db)) =
          (Inr (Json 400 (ErrorJson ''invalid_grant''
             ''The provided authorization grant is invalid, expired, or revoked.'')),
           snd (handleRefreshToken ?failing ?body example_db))"
    by blast
  from run replay fail replay2 show ?thesis by simp
qed

text \<open>
  \<open>OAuthToken.create\<close> as \<open>handleRefreshToken\<close> calls it, written out: the insertion
  throws when the new id or one of the new hashes is already in the table, and otherwise
  appends the row shown.
\<close>

lemma create_for_refresh:
  "OAuthToken_create hex cfg now uuid r1 r2
      \<lparr>p_userId = userId, p_clientId = clientId, p_scopes = scopes, p_name = None,
       p_includeRefreshToken = Some True, p_accessTokenLifetime = None,
       p_refreshTokenLifetime = None\<rparr> d =
   (if \<exists>r \<in> set (tokens d). tk_id r = uuid \<or> tk_token r = hex r1 \<or>
           (userId \<noteq> None \<and> tk_refresh_token r = Some (hex r2))
    then Inl DbError
    else Inr (\<lparr>r_accessToken = r1,
               r_refreshToken = (if userId \<noteq> None then Some r2 else None),
               r_tokenData = hydrate_token
                 \<lparr>tk_id = uuid, tk_user_id = userId, tk_client_id = clientId, tk_name = None,
                  tk_scopes = scopes, tk_token = hex r1,
                  tk_refresh_token = (if userId \<noteq> None then Some (hex r2) else None),
                  tk_expires_at = now + cfg_accessTokenLifetime cfg * 60000,
                  tk_refresh_expires_at =
                    (if userId \<noteq> None then Some (now + cfg_refreshTokenLifetime cfg * 60000)
                     else None),
                  tk_last_used_at = None, tk_revoked_at = None, tk_created_at = now\<rparr>\<rparr>,
              d\<lparr>tokens := tokens d @
                 [\<lparr>tk_id = uuid, tk_user_id = userId, tk_client_id = clientId, tk_name = None,
                   tk_scopes = scopes, tk_token = hex r1,
                   tk_refresh_token = (if userId \<noteq> None then Some (hex r2) else None),
                   tk_expires_at = now + cfg_accessTokenLifetime cfg * 60000,
                   tk_refresh_expires_at =
                     (if userId \<noteq> None then Some (now + cfg_refreshTokenLifetime cfg * 60000)
                      else None),
                   tk_last_used_at = None, tk_revoked_at = None, tk_created_at = now\<rparr>]\<rparr>))"
  by (auto simp: OAuthToken_create_def Let_def)

text \<open>Revoking a token changes no id and no hash, so it frees and takes none.\<close>

lemma collision_after_revoke:
  "(\<exists>r \<in> set (tokens (OAuthToken_revoke t i db)).
       tk_id r = uuid \<or> tk_token r = h1 \<or> (c \<and> tk_refresh_token r = Some h2)) \<longleftrightarrow>
   (\<exists>r \<in> set (tokens db).
       tk_id r = uuid \<or> tk_token r = h1 \<or> (c \<and> tk_refresh_token r = Some h2))"
proof -
  have "(\<exists>r \<in> set (map (\<lambda>r. if tk_id r = i then r\<lparr>tk_revoked_at := Some t\<rparr> else r) xs).
           tk_id r = uuid \<or> tk_token r = h1 \<or> (c \<and> tk_refresh_token r = Some h2)) \<longleftrightarrow>
        (\<exists>r \<in> set xs.
           tk_id r = uuid \<or> tk_token r = h1 \<or> (c \<and> tk_refresh_token r = Some h2))" for xs
    by (induction xs) auto
  then show ?thesis by (simp add: OAuthToken_revoke_def)
qed

lemma minutes_in_seconds: "(now + l * 60000 - now) div 1000 = l * 60" for now l :: int
  by simp

text \<open>
  C6. Take a refresh request whose client authenticates and whose refresh token validates
  to a token of that client. If it supplies a non-empty \<open>scope\<close> and some name of the
  space-split, non-empty pieces is not among the old token's scopes, the answer is 400
  \<open>invalid_request\<close> whose description lists exactly those names, in request order, and
  the database is unchanged: nothing is revoked and no token is issued. Otherwise the old
  token's rows are revoked and a token is inserted whose scopes are the requested ones
  when \<open>scope\<close> was supplied and the old token's scopes when it was omitted or empty, a
  subset of the old token's scopes either way. When the new id and the new hashes are not
  yet in the table the answer is 200, echoing those scopes, and the table is the old one
  with the old token revoked and the one new row appended; when one of them is already
  there the insertion throws and the table is the old one with the old token revoked.
\<close>

theorem refresh_scopes:
  assumes "truthy (body ''refresh_token'')" "truthy (body ''client_id'')"
      and "OAuthClient_find db (the (body ''client_id'')) = Inr (Some client)"
      and "\<not> c_revoked client"
      and "c_confidential client \<longrightarrow>
             truthy (body ''client_secret'') \<and>
             verifySecret (rt_hex rt) db client (the (body ''client_secret''))"
      and "OAuthToken_validateRefreshToken (rt_hex rt) (rt_now rt) (the (body ''refresh_token'')) db
             = Some old"
      and "t_clientId old = the (body ''client_id'')"
  shows
    "let requested = filter_Boolean (split_space (the (body ''scope'')));
         scopes = (if truthy (body ''scope'') then requested else t_scopes old);
         revoked = map (\<lambda>r. if tk_id r = t_id old then r\<lparr>tk_revoked_at := Some (rt_now rt)\<rparr>
                             else r) (tokens db);
         issued = \<lparr>tk_id = rt_uuid rt, tk_user_id = t_userId old,
                   tk_client_id = t_clientId old, tk_name = None, tk_scopes = scopes,
                   tk_token = rt_hex rt (rt_randomHex1 rt),
                   tk_refresh_token =
                     (if t_userId old \<noteq> None then Some (rt_hex rt (rt_randomHex2 rt))
                      else None),
                   tk_expires_at = rt_now rt + cfg_accessTokenLifetime (rt_config rt) * 60000,
                   tk_refresh_expires_at =
                     (if t_userId old \<noteq> None
                      then Some (rt_now rt + cfg_refreshTokenLifetime (rt_config rt) * 60000)
                      else None),
                   tk_last_used_at = None, tk_revoked_at = None, tk_created_at = rt_now rt\<rparr>
     in if truthy (body ''scope'') \<and> \<not> set requested \<subseteq> set (t_scopes old)
        then handleRefreshToken rt body db =
               (Inr (Json 400 (ErrorJson ''invalid_request''
                  (''Cannot widen scopes on refresh. Unknown scopes: '' @
                   join '', '' (filter (\<lambda>s. s \<notin> set (t_scopes old)) requested)))),
                db)
        else set scopes \<subseteq> set (t_scopes old) \<and>
             handleRefreshToken rt body db =
               (if \<forall>r \<in> set (tokens db).
                      tk_id r \<noteq> rt_uuid rt \<and> tk_token r \<noteq> rt_hex rt (rt_randomHex1 rt) \<and>
                      (t_userId old \<noteq> None \<longrightarrow>
                         tk_refresh_token r \<noteq> Some (rt_hex rt (rt_randomHex2 rt)))
                then (Inr (Json 200
                        (TokenJson (rt_randomHex1 rt) ''Bearer''
                           (cfg_accessTokenLifetime (rt_config rt) * 60) (join '' '' scopes)
                           (if t_userId old \<noteq> None \<and> rt_randomHex2 rt \<noteq> []
                            then Some (rt_randomHex2 rt) else None))),
                      db\<lparr>tokens := revoked @ [issued]\<rparr>)
                else (Inl DbError, db\<lparr>tokens := revoked\<rparr>))"
proof -
  define requested where "requested = filter_Boolean (split_space (the (body ''scope'')))"
  define widened where "widened = filter (\<lambda>s. s \<notin> set (t_scopes old)) requested"
  define scopes where "scopes = (if truthy (body ''scope'') then requested else t_scopes old)"
  define revoked where
    "revoked = map (\<lambda>r. if tk_id r = t_id old then r\<lparr>tk_revoked_at := Some (rt_now rt)\<rparr>
                         else r) (tokens db)"
  define db1 where "db1 = OAuthToken_revoke (rt_now rt) (t_id old) db"
  define collide where
    "collide \<longleftrightarrow> (\<exists>r \<in> set (tokens db).
        tk_id r = rt_uuid rt \<or> tk_token r = rt_hex rt (rt_randomHex1 rt) \<or>
        (t_userId old \<noteq> None \<and> tk_refresh_token r = Some (rt_hex rt (rt_randomHex2 rt))))"
  define issued where
    "issued = \<lparr>tk_id = rt_uuid rt, tk_user_id = t_userId old,
                   tk_client_id = t_clientId old, tk_name = None, tk_scopes = scopes,
                   tk_token = rt_hex rt (rt_randomHex1 rt),
                   tk_refresh_token =
                     (if t_userId old \<noteq> None then Some (rt_hex rt (rt_randomHex2 rt))
                      else None),
                   tk_expires_at = rt_now rt + cfg_accessTokenLifetime (rt_config rt) * 60000,
                   tk_refresh_expires_at =
                     (if t_userId old \<noteq> None
                      then Some (rt_now rt + cfg_refreshTokenLifetime (rt_config rt) * 60000)
                      else None),
                   tk_last_used_at = None, tk_revoked_at = None, tk_created_at = rt_now rt\<rparr>"
  let ?create = "OAuthToken_create (rt_hex rt) (rt_config rt) (rt_now rt) (rt_uuid rt)
                   (rt_randomHex1 rt) (rt_randomHex2 rt)
                   \<lparr>p_userId = t_userId old, p_clientId = the (body ''client_id''),
                    p_scopes = scopes, p_name = None, p_includeRefreshToken = Some True,
                    p_accessTokenLifetime = None, p_refreshTokenLifetime = None\<rparr> db1"
  have unf: "handleRefreshToken rt body db =
      (if truthy (body ''scope'') \<and> widened \<noteq> []
       then (Inr (Json 400 (ErrorJson ''invalid_request''
               (''Cannot widen scopes on refresh. Unknown scopes: '' @ join '', '' widened))), db)
       else case ?create of
              Inl e \<Rightarrow> (Inl e, db1)
            | Inr (created, db2) \<Rightarrow>
                (Inr (tokenResponse (rt_now rt) (r_accessToken created) (r_refreshToken created)
                        (t_scopes (r_tokenData created)) (t_expiresAt (r_tokenData created))),
                 db2))"
    unfolding refresh_unfold [OF assms] Let_def requested_def widened_def scopes_def db1_def ..
  have w: "widened \<noteq> [] \<longleftrightarrow> \<not> set requested \<subseteq> set (t_scopes old)"
    by (auto simp: widened_def filter_empty_conv)
  have db1: "db1 = db\<lparr>tokens := revoked\<rparr>"
    by (simp add: db1_def revoked_def OAuthToken_revoke_def)
  have col: "(\<exists>r \<in> set (tokens db1).
        tk_id r = rt_uuid rt \<or> tk_token r = rt_hex rt (rt_randomHex1 rt) \<or>
        (t_userId old \<noteq> None \<and> tk_refresh_token r = Some (rt_hex rt (rt_randomHex2 rt))))
      \<longleftrightarrow> collide"
    unfolding db1_def collide_def by (rule collision_after_revoke)
  have create: "?create =
      (if collide then Inl DbError
       else Inr (\<lparr>r_accessToken = rt_randomHex1 rt,
                  r_refreshToken = (if t_userId old \<noteq> None then Some (rt_randomHex2 rt)
                                    else None),
                  r_tokenData = hydrate_token issued\<rparr>,
                 db\<lparr>tokens := revoked @ [issued]\<rparr>))"
    unfolding create_for_refresh col
    by (simp add: issued_def assms(7) db1)
  have part1: "handleRefreshToken rt body db =
              (Inr (Json 400 (ErrorJson ''invalid_request''
                 (''Cannot widen scopes on refresh. Unknown scopes: '' @ join '', '' widened))),
               db)"
    if "truthy (body ''scope'') \<and> \<not> set requested \<subseteq> set (t_scopes old)"
    using that w by (simp add: unf)
  have sub: "set scopes \<subseteq> set (t_scopes old)"
    if "\<not> (truthy (body ''scope'') \<and> \<not> set requested \<subseteq> set (t_scopes old))"
    using that by (auto simp: scopes_def)
  have part2: "handleRefreshToken rt body db =
               (if \<not> collide
                then (Inr (Json 200
                        (TokenJson (rt_randomHex1 rt) ''Bearer''
                           (cfg_accessTokenLifetime (rt_config rt) * 60) (join '' '' scopes)
                           (if t_userId old \<noteq> None \<and> rt_randomHex2 rt \<noteq> []
                            then Some (rt_randomHex2 rt) else None))),
                      db\<lparr>tokens := revoked @ [issued]\<rparr>)
                else (Inl DbError, db\<lparr>tokens := revoked\<rparr>))"
    if "\<not> (truthy (body ''scope'') \<and> \<not> set requested \<subseteq> set (t_scopes old))"
  proof -
    from that w have nw: "\<not> (truthy (body ''scope'') \<and> widened \<noteq> [])" by simp
    have "handleRefreshToken rt body db = (case ?create of
              Inl e \<Rightarrow> (Inl e, db1)
            | Inr (created, db2) \<Rightarrow>
                (Inr (tokenResponse (rt_now rt) (r_accessToken created) (r_refreshToken created)
                        (t_scopes (r_tokenData created)) (t_expiresAt (r_tokenData created))),
                 db2))"
      unfolding unf using nw by (rule if_not_P)
    then show ?thesis
      unfolding create
      by (simp add: db1 tokenResponse_def hydrate_token_def issued_def truthy_def
            minutes_in_seconds)
  qed
  have fresh: "(\<forall>r \<in> set (tokens db).
                      tk_id r \<noteq> rt_uuid rt \<and> tk_token r \<noteq> rt_hex rt (rt_randomHex1 rt) \<and>
                      (t_userId old \<noteq> None \<longrightarrow>
                         tk_refresh_token r \<noteq> Some (rt_hex rt (rt_randomHex2 rt))))
               \<longleftrightarrow> \<not> collide"
    unfolding collide_def by blast
  show ?thesis
    unfolding Let_def requested_def [symmetric]
    unfolding scopes_def [symmetric] revoked_def [symmetric]
    unfolding issued_def [symmetric] widened_def [symmetric] fresh
    using part1 part2 sub by simp
qed

theorem refresh_scopes_witness:
  "handleRefreshToken example_runtime
      [''refresh_token'' \<mapsto> ''refresh-1'', ''client_id'' \<mapsto> client_1,
       ''client_secret'' \<mapsto> ''s3cret'', ''scope'' \<mapsto> ''read write'']
      example_db
     = (Inr (Json 400 (ErrorJson ''invalid_request''
               ''Cannot widen scopes on refresh. Unknown scopes: write'')),
        example_db) \<and>
   handleRefreshToken example_runtime
      [''refresh_token'' \<mapsto> ''refresh-1'', ''client_id'' \<mapsto> client_1,
       ''client_secret'' \<mapsto> ''s3cret'']
      (example_db\<lparr>tokens := [example_refresh_row\<lparr>tk_scopes := [''read'', ''write'']\<rparr>]\<rparr>)
     = (Inr (Json 200 (TokenJson ''access-2'' ''Bearer'' 3600 ''read write''
                         (Some ''refresh-2''))),
        example_db\<lparr>tokens :=
          [example_refresh_row\<lparr>tk_scopes := [''read'', ''write''], tk_revoked_at := Some 5000\<rparr>,
           \<lparr>tk_id = token_2, tk_user_id = Some ''u2'', tk_client_id = client_1,
            tk_name = None, tk_scopes = [''read'', ''write''],
            tk_token = example_digest ''access-2'',
            tk_refresh_token = Some (example_digest ''refresh-2''),
            tk_expires_at = 3605000, tk_refresh_expires_at = Some 2592005000,
            tk_last_used_at = None, tk_revoked_at = None, tk_created_at = 5000\<rparr>]\<rparr>) \<and>
   handleRefreshToken example_runtime
      [''refresh_token'' \<mapsto> ''refresh-1'', ''client_id'' \<mapsto> client_1,
       ''client_secret'' \<mapsto> ''s3cret'', ''scope'' \<mapsto> ''write'']
      (example_db\<lparr>tokens := [example_refresh_row\<lparr>tk_scopes := [''read'', ''write'']\<rparr>]\<rparr>)
     = (Inr (Json 200 (TokenJson ''access-2'' ''Bearer'' 3600 ''write'' (Some ''refresh-2''))),
        example_db\<lparr>tokens :=
          [example_refresh_row\<lparr>tk_scopes := [''read'', ''write''], tk_revoked_at := Some 5000\<rparr>,
           \<lparr>tk_id = token_2, tk_user_id = Some ''u2'', tk_client_id = client_1,
            tk_name = None, tk_scopes = [''write''],
            tk_token = example_digest ''access-2'',
            tk_refresh_token = Some (example_digest ''refresh-2''),
            tk_expires_at = 3605000, tk_refresh_expires_at = Some 2592005000,
            tk_last_used_at = None, tk_revoked_at = None, tk_created_at = 5000\<rparr>]\<rparr>) \<and>
   handleRefreshToken (example_runtime\<lparr>rt_randomHex1 := ''access-1''\<rparr>)
      [''refresh_token'' \<mapsto> ''refresh-1'', ''client_id'' \<mapsto> client_1,
       ''client_secret'' \<mapsto> ''s3cret'']
      example_db
     = (Inl DbError, example_db\<lparr>tokens := [example_refresh_row\<lparr>tk_revoked_at := Some 5000\<rparr>]\<rparr>)"
proof -
  let ?widen = "[''refresh_token'' \<mapsto> ''refresh-1'', ''client_id'' \<mapsto> client_1,
                 ''client_secret'' \<mapsto> ''s3cret'', ''scope'' \<mapsto> ''read write'']"
  let ?omit = "[''refresh_token'' \<mapsto> ''refresh-1'', ''client_id'' \<mapsto> client_1,
                ''client_secret'' \<mapsto> ''s3cret'']"
  let ?narrow = "[''refresh_token'' \<mapsto> ''refresh-1'', ''client_id'' \<mapsto> client_1,
                  ''client_secret'' \<mapsto> ''s3cret'', ''scope'' \<mapsto> ''write'']"
  let ?wide = "example_db\<lparr>tokens := [example_refresh_row\<lparr>tk_scopes := [''read'', ''write'']\<rparr>]\<rparr>"
  let ?taken = "example_runtime\<lparr>rt_randomHex1 := ''access-1''\<rparr>"
  note run = truthy_def OAuthClient_find_def verifySecret_def timingSafeEqual_def
    hydrate_client_def OAuthToken_validateRefreshToken_def hydrate_token_def Let_def
    example_db_def example_client_row_def example_refresh_row_def example_runtime_def
    example_digest_def uuid_in_def hyphen_after_def uuid_text_def hex_digit_def lower_hex_def
  note outcome = Let_def truthy_def filter_Boolean_def split_space_def hydrate_token_def
    example_db_def example_refresh_row_def example_runtime_def example_config_def
    example_digest_def
  have widen: "handleRefreshToken example_runtime ?widen example_db
     = (Inr (Json 400 (ErrorJson ''invalid_request''
               ''Cannot widen scopes on refresh. Unknown scopes: write'')),
        example_db)"
  proof -
    let ?b = ?widen and ?d = example_db and ?row = example_refresh_row
      and ?rt = example_runtime
    have h:
      "truthy (?b ''refresh_token'')" "truthy (?b ''client_id'')"
      "OAuthClient_find ?d (the (?b ''client_id'')) = Inr (Some (hydrate_client example_client_row))"
      "\<not> c_revoked (hydrate_client example_client_row)"
      "c_confidential (hydrate_client example_client_row) \<longrightarrow>
         truthy (?b ''client_secret'') \<and>
         verifySecret (rt_hex ?rt) ?d (hydrate_client example_client_row)
           (the (?b ''client_secret''))"
      "OAuthToken_validateRefreshToken (rt_hex ?rt) (rt_now ?rt) (the (?b ''refresh_token'')) ?d
         = Some (hydrate_token ?row)"
      "t_clientId (hydrate_token ?row) = the (?b ''client_id'')"
      by (simp_all add: run)
    from refresh_scopes [OF h] show ?thesis by (simp add: outcome)
  qed
  have omit: "handleRefreshToken example_runtime ?omit ?wide
     = (Inr (Json 200 (TokenJson ''access-2'' ''Bearer'' 3600 ''read write''
                         (Some ''refresh-2''))),
        example_db\<lparr>tokens :=
          [example_refresh_row\<lparr>tk_scopes := [''read'', ''write''], tk_revoked_at := Some 5000\<rparr>,
           \<lparr>tk_id = token_2, tk_user_id = Some ''u2'', tk_client_id = client_1,
            tk_name = None, tk_scopes = [''read'', ''write''],
            tk_token = example_digest ''access-2'',
            tk_refresh_token = Some (example_digest ''refresh-2''),
            tk_expires_at = 3605000, tk_refresh_expires_at = Some 2592005000,
            tk_last_used_at = None, tk_revoked_at = None, tk_created_at = 5000\<rparr>]\<rparr>)"
  proof -
    let ?b = ?omit and ?d = ?wide
      and ?row = "example_refresh_row\<lparr>tk_scopes := [''read'', ''write'']\<rparr>"
      and ?rt = example_runtime
    have h:
      "truthy (?b ''refresh_token'')" "truthy (?b ''client_id'')"
      "OAuthClient_find ?d (the (?b ''client_id'')) = Inr (Some (hydrate_client example_client_row))"
      "\<not> c_revoked (hydrate_client example_client_row)"
      "c_confidential (hydrate_client example_client_row) \<longrightarrow>
         truthy (?b ''client_secret'') \<and>
         verifySecret (rt_hex ?rt) ?d (hydrate_client example_client_row)
           (the (?b ''client_secret''))"
      "OAuthToken_validateRefreshToken (rt_hex ?rt) (rt_now ?rt) (the (?b ''refresh_token'')) ?d
         = Some (hydrate_token ?row)"
      "t_clientId (hydrate_token ?row) = the (?b ''client_id'')"
      by (simp_all add: run)
    from refresh_scopes [OF h] show ?thesis by (simp add: outcome)
  qed
  have narrow: "handleRefreshToken example_runtime ?narrow ?wide
     = (Inr (Json 200 (TokenJson ''access-2'' ''Bearer'' 3600 ''write'' (Some ''refresh-2''))),
        example_db\<lparr>tokens :=
          [example_refresh_row\<lparr>tk_scopes := [''read'', ''write''], tk_revoked_at := Some 5000\<rparr>,
           \<lparr>tk_id = token_2, tk_user_id = Some ''u2'', tk_client_id = client_1,
            tk_name = None, tk_scopes = [''write''],
            tk_token = example_digest ''access-2'',
            tk_refresh_token = Some (example_digest ''refresh-2''),
            tk_expires_at = 3605000, tk_refresh_expires_at = Some 2592005000,
            tk_last_used_at = None, tk_revoked_at = None, tk_created_at = 5000\<rparr>]\<rparr>)"
  proof -
    let ?b = ?narrow and ?d = ?wide
      and ?row = "example_refresh_row\<lparr>tk_scopes := [''read'', ''write'']\<rparr>"
      and ?rt = example_runtime
    have h:
      "truthy (?b ''refresh_token'')" "truthy (?b ''client_id'')"
      "OAuthClient_find ?d (the (?b ''client_id'')) = Inr (Some (hydrate_client example_client_row))"
      "\<not> c_revoked (hydrate_client example_client_row)"
      "c_confidential (hydrate_client example_client_row) \<longrightarrow>
         truthy (?b ''client_secret'') \<and>
         verifySecret (rt_hex ?rt) ?d (hydrate_client example_client_row)
           (the (?b ''client_secret''))"
      "OAuthToken_validateRefreshToken (rt_hex ?rt) (rt_now ?rt) (the (?b ''refresh_token'')) ?d
         = Some (hydrate_token ?row)"
      "t_clientId (hydrate_token ?row) = the (?b ''client_id'')"
      by (simp_all add: run)
    from refresh_scopes [OF h] show ?thesis by (simp add: outcome)
  qed
  have taken: "handleRefreshToken ?taken ?omit example_db
     = (Inl DbError, example_db\<lparr>tokens := [example_refresh_row\<lparr>tk_revoked_at := Some 5000\<rparr>]\<rparr>)"
  proof -
    let ?b = ?omit and ?d = example_db and ?row = example_refresh_row and ?rt = ?taken
    have h:
      "truthy (?b ''refresh_token'')" "truthy (?b ''client_id'')"
      "OAuthClient_find ?d (the (?b ''client_id'')) = Inr (Some (hydrate_client example_client_row))"
      "\<not> c_revoked (hydrate_client example_client_row)"
      "c_confidential (hydrate_client example_client_row) \<longrightarrow>
         truthy (?b ''client_secret'') \<and>
         verifySecret (rt_hex ?rt) ?d (hydrate_client example_client_row)
           (the (?b ''client_secret''))"
      "OAuthToken_validateRefreshToken (rt_hex ?rt) (rt_now ?rt) (the (?b ''refresh_token'')) ?d
         = Some (hydrate_token ?row)"
      "t_clientId (hydrate_token ?row) = the (?b ''client_id'')"
      by (simp_all add: run)
    from refresh_scopes [OF h] show ?thesis by (simp add: outcome)
  qed
  from widen omit narrow taken show ?thesis by simp
qed

section \<open>The authorization endpoint and the redirect URI\<close>











end
